theory Spec2Isabelle
  imports Main
begin

section \<open>JavaScript values used by the three route handlers\<close>

text \<open>
  A JavaScript string is a sequence of UTF-16 code units; \<open>js\<close> turns an ASCII literal
  into one. The taka sign (U+09F3) of the price patterns is one code unit.
\<close>

type_synonym jstring = "nat list"

definition js :: "string \<Rightarrow> jstring" where
  "js s = map of_char s"

definition taka :: jstring where
  "taka = [2547]"

text \<open>
  The numbers the handlers compute with are \<open>NaN\<close>, the two infinities and the doubles
  with an integer value: \<open>Number.parseInt\<close> returns nothing else, and neither does a
  difference of two \<open>getTime()\<close> values. \<open>Num n\<close> is the double of value \<open>n\<close>; minus zero
  is \<open>Num 0\<close>, from which no operation of the handlers tells it apart. Sums and
  differences of two finite numbers are kept exact, which is the double operation as long
  as the result is below \<open>2 ^ 53\<close> in magnitude. A number with a fraction, which \<open>Number\<close>
  on the video route can return, is not a value of the model.
\<close>

datatype jsnum = NaN | Num int | PosInfinity | NegInfinity

fun isNaN :: "jsnum \<Rightarrow> bool" where
  "isNaN NaN = True"
| "isNaN _ = False"

fun js_add :: "jsnum \<Rightarrow> jsnum \<Rightarrow> jsnum" where
  "js_add NaN _ = NaN"
| "js_add _ NaN = NaN"
| "js_add (Num a) (Num b) = Num (a + b)"
| "js_add PosInfinity NegInfinity = NaN"
| "js_add NegInfinity PosInfinity = NaN"
| "js_add PosInfinity _ = PosInfinity"
| "js_add _ PosInfinity = PosInfinity"
| "js_add NegInfinity _ = NegInfinity"
| "js_add _ NegInfinity = NegInfinity"

fun js_sub :: "jsnum \<Rightarrow> jsnum \<Rightarrow> jsnum" where
  "js_sub NaN _ = NaN"
| "js_sub _ NaN = NaN"
| "js_sub (Num a) (Num b) = Num (a - b)"
| "js_sub PosInfinity PosInfinity = NaN"
| "js_sub NegInfinity NegInfinity = NaN"
| "js_sub PosInfinity _ = PosInfinity"
| "js_sub _ PosInfinity = NegInfinity"
| "js_sub NegInfinity _ = NegInfinity"
| "js_sub _ NegInfinity = PosInfinity"

fun js_lt :: "jsnum \<Rightarrow> jsnum \<Rightarrow> bool" where
  "js_lt NaN _ = False"
| "js_lt _ NaN = False"
| "js_lt (Num a) (Num b) = (a < b)"
| "js_lt NegInfinity NegInfinity = False"
| "js_lt NegInfinity _ = True"
| "js_lt PosInfinity _ = False"
| "js_lt _ PosInfinity = True"
| "js_lt _ NegInfinity = False"

text \<open>
  The double of an integer: the integer itself when it has at most 53 bits, and else the
  nearest number with 53 significant bits, a tie going to the even one, or an infinity
  when that number has more than 1024 bits. \<open>bitlen m\<close> is the number of bits of \<open>m\<close>;
  on a numeral it is \<open>num_bits\<close> of its binary representation.
\<close>

function bitlen :: "int \<Rightarrow> nat" where
  "bitlen n = (if n \<le> 0 then 0 else Suc (bitlen (n div 2)))"
  by pat_completeness auto
termination
  by (relation "measure nat") auto

declare bitlen.simps [simp del]

fun num_bits :: "num \<Rightarrow> nat" where
  "num_bits Num.One = 1"
| "num_bits (Num.Bit0 k) = Suc (num_bits k)"
| "num_bits (Num.Bit1 k) = Suc (num_bits k)"

definition round_double :: "int \<Rightarrow> jsnum" where
  "round_double n =
     (let m = \<bar>n\<bar>; bits = bitlen m in
      if bits \<le> 53 then Num n
      else
        (let e = bits - 53;
             q = m div 2 ^ e;
             r = m mod 2 ^ e;
             half = 2 ^ (e - 1);
             q' = (if half < r \<or> (r = half \<and> odd q) then q + 1 else q);
             v = q' * 2 ^ e
         in if 1024 < bitlen v then (if n < 0 then NegInfinity else PosInfinity)
            else Num (if n < 0 then - v else v)))"

text \<open>\<open>a || b\<close> on strings: the empty string is falsy, and so is \<open>undefined\<close>.\<close>

definition or_str :: "jstring \<Rightarrow> jstring \<Rightarrow> jstring" where
  "or_str a b = (if a \<noteq> [] then a else b)"

definition or_undef :: "jstring option \<Rightarrow> jstring \<Rightarrow> jstring" where
  "or_undef a b = (case a of None \<Rightarrow> b | Some s \<Rightarrow> or_str s b)"

text \<open>White space as \<open>String.prototype.trim\<close>, \<open>parseInt\<close> and the class \<open>\s\<close> read it.\<close>

definition is_space :: "nat \<Rightarrow> bool" where
  "is_space c =
     (c = 9 \<or> c = 10 \<or> c = 11 \<or> c = 12 \<or> c = 13 \<or> c = 32 \<or> c = 160 \<or> c = 5760
      \<or> (8192 \<le> c \<and> c \<le> 8202) \<or> c = 8232 \<or> c = 8233 \<or> c = 8239 \<or> c = 8287
      \<or> c = 12288 \<or> c = 65279)"

definition trim :: "jstring \<Rightarrow> jstring" where
  "trim s = rev (dropWhile is_space (rev (dropWhile is_space s)))"

definition startsWith :: "jstring \<Rightarrow> jstring \<Rightarrow> bool" where
  "startsWith s t = (take (length t) s = t)"

fun js_includes :: "jstring \<Rightarrow> jstring \<Rightarrow> bool" where
  "js_includes [] t = (t = [])"
| "js_includes (c # s) t = (startsWith (c # s) t \<or> js_includes s t)"

definition substring0 :: "jstring \<Rightarrow> nat \<Rightarrow> jstring" where
  "substring0 s n = take n s"

subsection \<open>\<open>Number.parseInt\<close> with no radix\<close>

text \<open>
  Leading white space and one sign are skipped, \<open>0x\<close> or \<open>0X\<close> switches to radix 16,
  and the longest run of digits of the radix is read; with no digit the result is \<open>NaN\<close>.
  The value is the double of the integer read, as V8 computes it for every length of the
  run (the standard lets an engine approximate a decimal run beyond its 20th digit).
\<close>

fun digit_of :: "nat \<Rightarrow> nat \<Rightarrow> nat option" where
  "digit_of radix c =
     (let v = (if 48 \<le> c \<and> c \<le> 57 then Some (c - 48)
               else if 97 \<le> c \<and> c \<le> 122 then Some (c - 87)
               else if 65 \<le> c \<and> c \<le> 90 then Some (c - 55)
               else None)
      in case v of None \<Rightarrow> None | Some d \<Rightarrow> if d < radix then Some d else None)"

fun parse_digits :: "nat \<Rightarrow> jstring \<Rightarrow> nat list" where
  "parse_digits radix [] = []"
| "parse_digits radix (c # cs) =
     (case digit_of radix c of None \<Rightarrow> [] | Some d \<Rightarrow> d # parse_digits radix cs)"

definition digits_value :: "nat \<Rightarrow> nat list \<Rightarrow> int" where
  "digits_value radix ds = foldl (\<lambda>a d. a * int radix + int d) 0 ds"

definition parseInt :: "jstring \<Rightarrow> jsnum" where
  "parseInt input =
     (let s = dropWhile is_space input;
          sign = (if s \<noteq> [] \<and> hd s = 45 then - 1 else 1 :: int);
          s1 = (if s \<noteq> [] \<and> (hd s = 43 \<or> hd s = 45) then tl s else s);
          hex = (startsWith s1 (js ''0x'') \<or> startsWith s1 (js ''0X''));
          radix = (if hex then 16 else 10);
          s2 = (if hex then drop 2 s1 else s1);
          ds = parse_digits radix s2
      in if ds = [] then NaN else round_double (sign * digits_value radix ds))"

subsection \<open>\<open>Array.prototype.slice\<close> and \<open>Array.prototype.sort\<close>\<close>

text \<open>
  \<open>slice\<close> reads \<open>NaN\<close> as 0, counts a negative index from the end and clamps both
  indices to the length; an infinity is clamped like any other index.
\<close>

definition rel_index :: "nat \<Rightarrow> jsnum \<Rightarrow> nat" where
  "rel_index len n =
     (case n of
        NaN \<Rightarrow> 0
      | Num k \<Rightarrow> if k < 0 then nat (max (int len + k) 0) else min (nat k) len
      | PosInfinity \<Rightarrow> len
      | NegInfinity \<Rightarrow> 0)"

definition js_slice :: "'a list \<Rightarrow> jsnum \<Rightarrow> jsnum \<Rightarrow> 'a list" where
  "js_slice xs start fin =
     (let k = rel_index (length xs) start; f = rel_index (length xs) fin
      in take (f - k) (drop k xs))"

text \<open>
  \<open>sort\<close> is stable (ECMAScript 2019). It is modelled as the stable insertion sort, which
  is the order the standard fixes for a consistent comparator. A comparator result
  \<open>NaN\<close> is read as \<open>+0\<close>, as \<open>SortCompare\<close> does; for such a comparator the standard leaves
  the order to the engine, and V8 sorts short arrays by binary insertion, which on the
  inputs evaluated below makes the same comparisons with the same outcome.
\<close>

definition sort_compare :: "('a \<Rightarrow> 'a \<Rightarrow> jsnum) \<Rightarrow> 'a \<Rightarrow> 'a \<Rightarrow> int" where
  "sort_compare cmp x y =
     (case cmp x y of NaN \<Rightarrow> 0 | Num v \<Rightarrow> v | PosInfinity \<Rightarrow> 1 | NegInfinity \<Rightarrow> - 1)"

fun insort_cmp :: "('a \<Rightarrow> 'a \<Rightarrow> jsnum) \<Rightarrow> 'a \<Rightarrow> 'a list \<Rightarrow> 'a list" where
  "insort_cmp cmp x [] = [x]"
| "insort_cmp cmp x (y # ys) =
     (if 0 < sort_compare cmp x y then y # insort_cmp cmp x ys else x # y # ys)"

definition js_sort :: "('a \<Rightarrow> 'a \<Rightarrow> jsnum) \<Rightarrow> 'a list \<Rightarrow> 'a list" where
  "js_sort cmp xs = foldr (insort_cmp cmp) xs []"

section \<open>The outside world\<close>

text \<open>
  What a request to one source comes to: the request is rejected (network failure), the
  response has a status outside 2xx, the payload does not parse, or the parsed payload.
\<close>

datatype 'a fetched = NetworkError | HttpError nat | ParseError | Parsed 'a

datatype exn = FetchRejected | XmlParseError | TypeError

text \<open>
  The \<open>xml2js\<close> tree of an RSS item: each field is the first element of the child's array,
  \<open>None\<close> when the child is absent (\<open>item.title?.[0]\<close> is then \<open>undefined\<close>). A \<open>guid\<close>
  with attributes is an object with its attributes under \<open>$\<close> and its text, when it has
  one, under \<open>_\<close>.
\<close>

datatype guid_node = GuidText jstring | GuidElem "(string \<times> jstring) list" "jstring option"

record rss_item =
  item_title :: "jstring option"
  item_link :: "jstring option"
  item_pubDate :: "jstring option"
  item_guid :: "guid_node option"
  item_content_encoded :: "jstring option"
  item_description :: "jstring option"
  item_media_content_url :: "jstring option"

text \<open>
  The \<open>cheerio\<close> document of a product page, as far as \<open>scrapeProductDataFast\<close> queries it:
  the \<open>content\<close> attribute of six \<open>meta\<close> selectors (\<open>None\<close> for \<open>undefined\<close>), the text of
  \<open>title\<close>, and \<open>$(selector).first().text()\<close> for the price selectors.
\<close>

record page_dom =
  meta_property_og_title :: "jstring option"
  meta_name_og_title :: "jstring option"
  title_text :: jstring
  meta_property_og_description :: "jstring option"
  meta_name_og_description :: "jstring option"
  meta_name_description :: "jstring option"
  meta_property_og_image :: "jstring option"
  meta_name_og_image :: "jstring option"
  first_text :: "jstring \<Rightarrow> jstring"

text \<open>
  The \<open>xml2js\<close> tree of a channel feed entry. \<open>entry.id[0]\<close> and its like throw a
  \<open>TypeError\<close> when the child is absent (\<open>None\<close>). \<open>statistics\<close> is how far the chain
  \<open>entry['media:group'][0]['media:community'][0]['media:statistics'][0]\<close> goes: which
  child is the first one absent, or the statistics element, without attributes (\<open>xml2js\<close>
  gives a string, which has no \<open>$\<close>) or with them (its \<open>views\<close> attribute, if any).
\<close>

datatype statistics =
  NoMediaGroup | NoMediaCommunity | NoMediaStatistics | StatisticsPlain
  | StatisticsAttrs "jstring option"

record yt_entry =
  entry_id :: "jstring option"
  entry_videoId :: "jstring option"
  entry_title :: "jstring option"
  entry_author_name :: "jstring option"
  entry_published :: "jstring option"
  entry_statistics :: statistics

datatype yt_doc = NoFeed | Feed "yt_entry list option"

text \<open>
  Everything a handler takes from outside itself: the sources' answers by URL, and the
  library functions that are not code of the repository (\<open>new URL(u).hostname\<close>, \<open>None\<close>
  when it throws; \<open>new Date(s).getTime()\<close>; the first group of the Open-Graph pattern
  of \<open>fetchOGImageFromPage\<close> on a page's markup; \<open>Buffer.from(u).toString("base64")\<close>;
  \<open>localeCompare\<close>; \<open>Number\<close> on a string).
\<close>

record world =
  rss_feed :: "jstring \<Rightarrow> rss_item list option fetched"
  hostname :: "jstring \<Rightarrow> jstring option"
  page_html :: "jstring \<Rightarrow> jstring fetched"
  og_image_match :: "jstring \<Rightarrow> jstring option"
  getTime :: "jstring \<Rightarrow> jsnum"
  sitemap_xml :: "jstring \<Rightarrow> jstring option list option fetched"
  product_page :: "jstring \<Rightarrow> page_dom fetched"
  base64 :: "jstring \<Rightarrow> jstring"
  localeCompare :: "jstring \<Rightarrow> jstring \<Rightarrow> int"
  channel_feed :: "jstring \<Rightarrow> yt_doc fetched"
  toNumber :: "jstring \<Rightarrow> jsnum"

text \<open>
  The body every handler answers with: the page (under \<open>items\<close>, or \<open>products\<close> on the
  product route), \<open>hasMore\<close> and \<open>total\<close>. Every source is fetched inside a \<open>try\<close> of its
  own, and on the typed trees above nothing else in a handler throws, so the answer with
  status 500 of the outer \<open>catch\<close> is not a value of the model.
\<close>

record 'a page_response =
  resp_items :: "'a list"
  resp_hasMore :: bool
  resp_total :: nat

definition respond :: "'a list \<Rightarrow> 'a list \<Rightarrow> jsnum \<Rightarrow> jsnum \<Rightarrow> 'a page_response" where
  "respond page allItems offset limit =
     \<lparr>resp_items = page,
      resp_hasMore = js_lt (js_add offset limit) (Num (int (length allItems))),
      resp_total = length allItems\<rparr>"

text \<open>\<open>Number.parseInt(searchParams.get(name) || dflt)\<close>: \<open>get\<close> gives \<open>null\<close> or a string.\<close>

definition query_int :: "jstring option \<Rightarrow> jstring \<Rightarrow> jsnum" where
  "query_int param dflt = parseInt (or_undef param dflt)"

section \<open>The news route\<close>

datatype guid_val = GuidStr jstring | GuidObject "(string \<times> jstring) list" "jstring option"

record NewsItem =
  n_title :: jstring
  n_link :: jstring
  n_description :: jstring
  n_pubDate :: jstring
  n_guid :: guid_val
  n_image :: jstring
  n_domain :: jstring
  n_needsImage :: bool

text \<open>\<open>item.guid?.[0]?._ || item.guid?.[0] || ""\<close>\<close>

fun guid_of :: "guid_node option \<Rightarrow> guid_val" where
  "guid_of None = GuidStr []"
| "guid_of (Some (GuidText s)) = GuidStr s"
| "guid_of (Some (GuidElem attrs None)) = GuidObject attrs None"
| "guid_of (Some (GuidElem attrs (Some t))) =
     (if t \<noteq> [] then GuidStr t else GuidObject attrs (Some t))"

definition newsItem_of :: "jstring \<Rightarrow> rss_item \<Rightarrow> NewsItem" where
  "newsItem_of domain item =
     (let title = or_undef (item_title item) [];
          link = or_undef (item_link item) [];
          pubDate = or_undef (item_pubDate item) [];
          guid = guid_of (item_guid item);
          contentEncoded = map_option trim (item_content_encoded item);
          description = or_undef contentEncoded (or_undef (item_description item) []);
          image = or_undef (item_media_content_url item) [];
          needsImage = (image = [] \<and> link \<noteq> [])
      in \<lparr>n_title = title, n_link = link, n_description = description, n_pubDate = pubDate,
          n_guid = guid, n_image = image, n_domain = domain, n_needsImage = needsImage\<rparr>)"

text \<open>The body of the \<open>try\<close> of \<open>fetchRSSFeed\<close>, and the function with its \<open>catch\<close>.\<close>

definition fetchRSSFeed_try :: "world \<Rightarrow> jstring \<Rightarrow> exn + NewsItem list" where
  "fetchRSSFeed_try w url =
     (case rss_feed w url of
        NetworkError \<Rightarrow> Inl FetchRejected
      | HttpError st \<Rightarrow> Inr []
      | ParseError \<Rightarrow> Inl XmlParseError
      | Parsed doc \<Rightarrow>
          (let items = (case doc of None \<Rightarrow> [] | Some its \<Rightarrow> its) in
           case hostname w url of
             None \<Rightarrow> Inl TypeError
           | Some domain \<Rightarrow>
               Inr (filter (\<lambda>item. n_title item \<noteq> [] \<and> n_link item \<noteq> [])
                      (map (newsItem_of domain) items))))"

definition fetchRSSFeed :: "world \<Rightarrow> jstring \<Rightarrow> NewsItem list" where
  "fetchRSSFeed w url = (case fetchRSSFeed_try w url of Inl e \<Rightarrow> [] | Inr newsItems \<Rightarrow> newsItems)"

text \<open>\<open>fetchOGImageFromPage\<close>: \<open>null\<close> on a status outside 2xx, on no match and in the \<open>catch\<close>.\<close>

definition fetchOGImageFromPage :: "world \<Rightarrow> jstring \<Rightarrow> jstring option" where
  "fetchOGImageFromPage w link =
     (case page_html w link of
        Parsed html \<Rightarrow>
          (case og_image_match w html of
             None \<Rightarrow> None
           | Some url \<Rightarrow> if url \<noteq> [] then Some url else None)
      | _ \<Rightarrow> None)"

text \<open>
  One item of \<open>enrichItemsWithImages\<close>: the item it resolves to, and the pages it
  requested on the way.
\<close>

definition enrichItem :: "world \<Rightarrow> NewsItem \<Rightarrow> NewsItem \<times> jstring list" where
  "enrichItem w item =
     (if \<not> n_needsImage item \<or> n_link item = [] then (item, [])
      else
        (let image = fetchOGImageFromPage w (n_link item) in
         (item\<lparr>n_image := (case image of None \<Rightarrow> [] | Some url \<Rightarrow> url), n_needsImage := False\<rparr>,
          [n_link item])))"

definition enrichItemsWithImages :: "world \<Rightarrow> NewsItem list \<Rightarrow> NewsItem list \<times> jstring list" where
  "enrichItemsWithImages w items =
     (map (\<lambda>item. fst (enrichItem w item)) items,
      concat (map (\<lambda>item. snd (enrichItem w item)) items))"

definition news_compare :: "world \<Rightarrow> NewsItem \<Rightarrow> NewsItem \<Rightarrow> jsnum" where
  "news_compare w a b =
     (let dateA = getTime w (n_pubDate a); dateB = getTime w (n_pubDate b) in
      if isNaN dateA \<and> isNaN dateB then Num 0
      else if isNaN dateA then Num 1
      else if isNaN dateB then Num (- 1)
      else js_sub dateB dateA)"

definition news_allItems :: "world \<Rightarrow> jstring list \<Rightarrow> NewsItem list" where
  "news_allItems w urls =
     js_sort (news_compare w)
       (filter (\<lambda>item. n_pubDate item \<noteq> []) (concat (map (fetchRSSFeed w) urls)))"

text \<open>
  The handler from the parsed \<open>offset\<close> and \<open>limit\<close> on: the response, and the pages the
  enrichment pass requested.
\<close>

definition news_page ::
  "world \<Rightarrow> jstring list \<Rightarrow> jsnum \<Rightarrow> jsnum \<Rightarrow> NewsItem page_response \<times> jstring list" where
  "news_page w urls offset limit =
     (let allItems = news_allItems w urls;
          paginatedItems = js_slice allItems offset (js_add offset limit);
          enriched = enrichItemsWithImages w paginatedItems
      in (respond (fst enriched) allItems offset limit, snd enriched))"

definition GET_news ::
  "world \<Rightarrow> jstring list \<Rightarrow> jstring option \<Rightarrow> jstring option
     \<Rightarrow> NewsItem page_response \<times> jstring list" where
  "GET_news w urls offset_param limit_param =
     news_page w urls (query_int offset_param (js ''0'')) (query_int limit_param (js ''30''))"

text \<open>The body as \<open>NextResponse.json\<close> writes it: every own property with a defined value.\<close>

datatype json =
  JString jstring | JBool bool | JNumber int | JArray "json list"
  | JObject "(string \<times> json) list"

definition guid_json :: "guid_val \<Rightarrow> json" where
  "guid_json g =
     (case g of
        GuidStr s \<Rightarrow> JString s
      | GuidObject attrs t \<Rightarrow>
          JObject ((''$'', JObject (map (\<lambda>(k, v). (k, JString v)) attrs))
                   # (case t of None \<Rightarrow> [] | Some s \<Rightarrow> [(''_'', JString s)])))"

definition NewsItem_json :: "NewsItem \<Rightarrow> json" where
  "NewsItem_json item =
     JObject [(''title'', JString (n_title item)), (''link'', JString (n_link item)),
              (''description'', JString (n_description item)),
              (''pubDate'', JString (n_pubDate item)), (''guid'', guid_json (n_guid item)),
              (''image'', JString (n_image item)), (''domain'', JString (n_domain item)),
              (''needsImage'', JBool (n_needsImage item))]"

definition news_json :: "NewsItem page_response \<Rightarrow> json" where
  "news_json r =
     JObject [(''items'', JArray (map NewsItem_json (resp_items r))),
              (''hasMore'', JBool (resp_hasMore r)), (''total'', JNumber (int (resp_total r)))]"

text \<open>The member of an object of the body under a key, if it has one.\<close>

fun member_of :: "json \<Rightarrow> string \<Rightarrow> json option" where
  "member_of (JObject kvs) k = map_of kvs k"
| "member_of _ k = None"

section \<open>The product route\<close>

record Product =
  p_id :: jstring
  p_title :: jstring
  p_description :: jstring
  p_image :: jstring
  p_price :: jstring
  p_url :: jstring
  p_domain :: jstring

record ProductSource =
  src_sitemap :: jstring
  src_xpath :: jstring
  src_domain :: jstring

text \<open>
  \<open>fetchSitemapFast\<close>: the \<open>loc\<close> of every entry of \<open>result?.urlset?.url\<close> that has a
  non-empty one, at most 50 of them. \<open>axios\<close> rejects on a status outside 2xx.
\<close>

definition fetchSitemapFast_try :: "world \<Rightarrow> jstring \<Rightarrow> exn + jstring list" where
  "fetchSitemapFast_try w sitemapUrl =
     (case sitemap_xml w sitemapUrl of
        NetworkError \<Rightarrow> Inl FetchRejected
      | HttpError st \<Rightarrow> Inl FetchRejected
      | ParseError \<Rightarrow> Inl XmlParseError
      | Parsed doc \<Rightarrow>
          (let urls = (case doc of
                         None \<Rightarrow> []
                       | Some entries \<Rightarrow>
                           concat (map (\<lambda>urlEntry. case urlEntry of
                                          None \<Rightarrow> []
                                        | Some loc \<Rightarrow> if loc \<noteq> [] then [loc] else [])
                                     entries))
           in Inr (js_slice urls (Num 0) (Num 50))))"

definition fetchSitemapFast :: "world \<Rightarrow> jstring \<Rightarrow> jstring list" where
  "fetchSitemapFast w sitemapUrl =
     (case fetchSitemapFast_try w sitemapUrl of Inl e \<Rightarrow> [] | Inr urls \<Rightarrow> urls)"

text \<open>
  The first match in a text of the pattern "taka sign or Tk, then \<open>\s*\<close>, then
  \<open>[\d,]+\<close>" that \<open>scrapeProductDataFast\<close> cuts the price with. The two classes are
  disjoint, so the greedy match is the only one at a position.
\<close>

definition is_price_char :: "nat \<Rightarrow> bool" where
  "is_price_char c = ((48 \<le> c \<and> c \<le> 57) \<or> c = 44)"

definition match_marker_at :: "jstring \<Rightarrow> jstring \<Rightarrow> jstring option" where
  "match_marker_at marker s =
     (if startsWith s marker then
        (let rest = drop (length marker) s;
             spaces = takeWhile is_space rest;
             digits = takeWhile is_price_char (dropWhile is_space rest)
         in if digits = [] then None else Some (marker @ spaces @ digits))
      else None)"

fun match_price :: "jstring \<Rightarrow> jstring option" where
  "match_price [] = None"
| "match_price (c # s) =
     (case match_marker_at taka (c # s) of
        Some m \<Rightarrow> Some m
      | None \<Rightarrow>
          (case match_marker_at (js ''Tk'') (c # s) of
             Some m \<Rightarrow> Some m
           | None \<Rightarrow> match_price s))"

definition price_not_available :: jstring where
  "price_not_available = js ''Price not available''"

definition pickaboo_selectors :: "jstring list" where
  \<open>pickaboo_selectors =
     [js ''.price-current'', js ''.product-price'', js ''[class*="price"]'',
      js ''h2:contains("'' @ taka @ js ''")'', js ''span:contains("'' @ taka @ js ''")'']\<close>

definition daraz_selectors :: "jstring list" where
  \<open>daraz_selectors =
     [js ''[data-testid="price-current"]'', js ''.pdp-price'',
      js ''#module_product_price_1 span'', js ''[class*="price"]'',
      js ''span:contains("'' @ taka @ js ''")'']\<close>

text \<open>
  The test of the loop, \<open>priceText && (priceText.includes(taka) || priceText.includes("Tk"))\<close>,
  and the value it assigns, \<open>priceText.match(...)?.[0] || priceText\<close>.
\<close>

definition has_currency_marker :: "jstring \<Rightarrow> bool" where
  "has_currency_marker priceText =
     (priceText \<noteq> [] \<and> (js_includes priceText taka \<or> js_includes priceText (js ''Tk'')))"

definition cut_price :: "jstring \<Rightarrow> jstring" where
  "cut_price priceText = or_undef (match_price priceText) priceText"

text \<open>The \<open>for\<close> loop over the selectors, with its \<open>break\<close>; \<open>price\<close> is the value so far.\<close>

fun try_selectors :: "page_dom \<Rightarrow> jstring list \<Rightarrow> jstring \<Rightarrow> jstring" where
  "try_selectors page [] price = price"
| "try_selectors page (selector # rest) price =
     (let priceText = trim (first_text page selector) in
      if has_currency_marker priceText then cut_price priceText
      else try_selectors page rest price)"

definition extract_price :: "page_dom \<Rightarrow> jstring \<Rightarrow> jstring" where
  "extract_price page domain =
     (if js_includes domain (js ''pickaboo'') then
        try_selectors page pickaboo_selectors price_not_available
      else if js_includes domain (js ''daraz'') then
        try_selectors page daraz_selectors price_not_available
      else price_not_available)"

definition scrapeProductDataFast_try :: "world \<Rightarrow> jstring \<Rightarrow> jstring \<Rightarrow> exn + Product option" where
  "scrapeProductDataFast_try w url domain =
     (case product_page w url of
        Parsed page \<Rightarrow>
          (let ogTitle =
                 or_undef (meta_property_og_title page)
                   (or_undef (meta_name_og_title page) (or_str (title_text page) []));
               ogDescription =
                 or_undef (meta_property_og_description page)
                   (or_undef (meta_name_og_description page)
                      (or_undef (meta_name_description page) []));
               ogImage =
                 or_undef (meta_property_og_image page) (or_undef (meta_name_og_image page) []);
               price = extract_price page domain
           in if trim ogTitle = [] then Inr None
              else Inr (Some
                \<lparr>p_id = take 16 (base64 w url),
                 p_title = substring0 ogTitle 100,
                 p_description = substring0 ogDescription 200,
                 p_image = (if startsWith ogImage (js ''http'') then ogImage
                            else if ogImage \<noteq> [] then js ''https://'' @ domain @ ogImage
                            else []),
                 p_price = price, p_url = url, p_domain = domain\<rparr>))
      | _ \<Rightarrow> Inl FetchRejected)"

definition scrapeProductDataFast :: "world \<Rightarrow> jstring \<Rightarrow> jstring \<Rightarrow> Product option" where
  "scrapeProductDataFast w url domain =
     (case scrapeProductDataFast_try w url domain of Inl e \<Rightarrow> None | Inr product \<Rightarrow> product)"

text \<open>One element of \<open>sitemapPromises\<close>: the products of one source.\<close>

definition source_products :: "world \<Rightarrow> ProductSource \<Rightarrow> Product list" where
  "source_products w source =
     (let urls = fetchSitemapFast w (src_sitemap source);
          products = map (\<lambda>url. scrapeProductDataFast w url (src_domain source))
                       (js_slice urls (Num 0) (Num 15))
      in concat (map (\<lambda>p. case p of None \<Rightarrow> [] | Some product \<Rightarrow> [product]) products))"

definition product_compare :: "world \<Rightarrow> Product \<Rightarrow> Product \<Rightarrow> jsnum" where
  "product_compare w a b = Num (localeCompare w (p_title a) (p_title b))"

definition allProducts :: "world \<Rightarrow> ProductSource list \<Rightarrow> Product list" where
  "allProducts w sources =
     js_sort (product_compare w) (concat (map (source_products w) sources))"

definition product_page_of ::
  "world \<Rightarrow> ProductSource list \<Rightarrow> jsnum \<Rightarrow> jsnum \<Rightarrow> Product page_response" where
  "product_page_of w sources offset limit =
     (let products = allProducts w sources;
          paginatedProducts = js_slice products offset (js_add offset limit)
      in respond paginatedProducts products offset limit)"

definition GET_product ::
  "world \<Rightarrow> ProductSource list \<Rightarrow> jstring option \<Rightarrow> jstring option \<Rightarrow> Product page_response" where
  "GET_product w sources offset_param limit_param =
     product_page_of w sources
       (query_int offset_param (js ''0'')) (query_int limit_param (js ''20''))"

section \<open>The video route\<close>

record VideoItem =
  v_id :: jstring
  v_videoId :: jstring
  v_title :: jstring
  v_thumbnail :: jstring
  v_channelName :: jstring
  v_published :: jstring
  v_views :: jstring

text \<open>
  \<open>entry['media:group'][0]['media:community'][0]['media:statistics'][0]?.$.views || '0'\<close>:
  the \<open>?.\<close> guards the first element of the statistics array only, so an absent child on
  the way throws, and so does a statistics element with no attributes.
\<close>

fun views_of :: "statistics \<Rightarrow> exn + jstring" where
  "views_of (StatisticsAttrs views) = Inr (or_undef views (js ''0''))"
| "views_of _ = Inl TypeError"

definition thumbnail_of :: "jstring \<Rightarrow> jstring" where
  "thumbnail_of videoId = js ''https://i.ytimg.com/vi/'' @ videoId @ js ''/mqdefault.jpg''"

definition videoItem_of :: "yt_entry \<Rightarrow> exn + VideoItem" where
  "videoItem_of entry =
     (case entry_id entry of None \<Rightarrow> Inl TypeError | Some eid \<Rightarrow>
     (case entry_videoId entry of None \<Rightarrow> Inl TypeError | Some videoId \<Rightarrow>
     (case entry_title entry of None \<Rightarrow> Inl TypeError | Some title \<Rightarrow>
     (case entry_author_name entry of None \<Rightarrow> Inl TypeError | Some channelName \<Rightarrow>
     (case entry_published entry of None \<Rightarrow> Inl TypeError | Some published \<Rightarrow>
     (case views_of (entry_statistics entry) of Inl e \<Rightarrow> Inl e | Inr views \<Rightarrow>
        Inr \<lparr>v_id = eid, v_videoId = videoId, v_title = title,
             v_thumbnail = thumbnail_of videoId, v_channelName = channelName,
             v_published = published, v_views = views\<rparr>))))))"

text \<open>\<open>Array.prototype.map\<close> with a callback that may throw: the first throw ends it.\<close>

fun map_try :: "('a \<Rightarrow> exn + 'b) \<Rightarrow> 'a list \<Rightarrow> exn + 'b list" where
  "map_try f [] = Inr []"
| "map_try f (x # xs) =
     (case f x of
        Inl e \<Rightarrow> Inl e
      | Inr y \<Rightarrow> (case map_try f xs of Inl e \<Rightarrow> Inl e | Inr ys \<Rightarrow> Inr (y # ys)))"

definition channel_url :: "jstring \<Rightarrow> jstring" where
  "channel_url channelId = js ''https://www.youtube.com/feeds/videos.xml?channel_id='' @ channelId"

definition fetchChannel_try :: "world \<Rightarrow> jstring \<Rightarrow> exn + VideoItem list" where
  "fetchChannel_try w channelId =
     (case channel_feed w (channel_url channelId) of
        NetworkError \<Rightarrow> Inl FetchRejected
      | HttpError st \<Rightarrow> Inr []
      | ParseError \<Rightarrow> Inl XmlParseError
      | Parsed NoFeed \<Rightarrow> Inl TypeError
      | Parsed (Feed entries) \<Rightarrow>
          map_try videoItem_of (case entries of None \<Rightarrow> [] | Some es \<Rightarrow> es))"

definition fetchChannel :: "world \<Rightarrow> jstring \<Rightarrow> VideoItem list" where
  "fetchChannel w channelId =
     (case fetchChannel_try w channelId of Inl e \<Rightarrow> [] | Inr videos \<Rightarrow> videos)"

definition video_compare :: "world \<Rightarrow> VideoItem \<Rightarrow> VideoItem \<Rightarrow> jsnum" where
  "video_compare w a b = js_sub (getTime w (v_published b)) (getTime w (v_published a))"

definition sortedVideos :: "world \<Rightarrow> jstring list \<Rightarrow> VideoItem list" where
  "sortedVideos w channelIds =
     js_sort (video_compare w) (concat (map (fetchChannel w) channelIds))"

definition video_page ::
  "world \<Rightarrow> jstring list \<Rightarrow> jsnum \<Rightarrow> jsnum \<Rightarrow> VideoItem page_response" where
  "video_page w channelIds offset limit =
     (let videos = sortedVideos w channelIds;
          paginatedVideos = js_slice videos offset (js_add offset limit)
      in respond paginatedVideos videos offset limit)"

text \<open>\<open>Number(searchParams.get(name) || dflt)\<close>, the default being a number already.\<close>

definition query_number :: "world \<Rightarrow> jstring option \<Rightarrow> int \<Rightarrow> jsnum" where
  "query_number w param dflt =
     (case param of
        None \<Rightarrow> Num dflt
      | Some s \<Rightarrow> if s \<noteq> [] then toNumber w s else Num dflt)"

definition GET_videos ::
  "world \<Rightarrow> jstring list \<Rightarrow> jstring option \<Rightarrow> jstring option \<Rightarrow> VideoItem page_response" where
  "GET_videos w channelIds offset_param limit_param =
     video_page w channelIds (query_number w offset_param 0) (query_number w limit_param 30)"

section \<open>A small world to evaluate the handlers in\<close>

text \<open>
  One feed with three items (one without a title) and one feed that is down; one sitemap
  with two product pages; three channels. The library functions are given on the strings
  that occur.
\<close>

definition feed_url :: jstring where
  "feed_url = js ''https://a.example/rss''"

definition down_url :: jstring where
  "down_url = js ''https://down.example/rss''"

definition old_item :: rss_item where
  "old_item =
     \<lparr>item_title = Some (js ''Old''), item_link = Some (js ''https://a.example/1''),
      item_pubDate = Some (js ''2024-01-01''), item_guid = Some (GuidText (js ''g1'')),
      item_content_encoded = None, item_description = Some (js ''first''),
      item_media_content_url = None\<rparr>"

definition new_item :: rss_item where
  "new_item =
     \<lparr>item_title = Some (js ''New''), item_link = Some (js ''https://a.example/2''),
      item_pubDate = Some (js ''2024-01-02''), item_guid = Some (GuidText (js ''g2'')),
      item_content_encoded = None, item_description = Some (js ''second''),
      item_media_content_url = Some (js ''https://a.example/2.jpg'')\<rparr>"

definition untitled_item :: rss_item where
  "untitled_item =
     \<lparr>item_title = None, item_link = Some (js ''https://a.example/3''),
      item_pubDate = Some (js ''2024-01-03''), item_guid = None,
      item_content_encoded = None, item_description = None,
      item_media_content_url = None\<rparr>"

definition old_news :: NewsItem where
  "old_news =
     \<lparr>n_title = js ''Old'', n_link = js ''https://a.example/1'', n_description = js ''first'',
      n_pubDate = js ''2024-01-01'', n_guid = GuidStr (js ''g1''), n_image = [],
      n_domain = js ''a.example'', n_needsImage = True\<rparr>"

definition new_news :: NewsItem where
  "new_news =
     \<lparr>n_title = js ''New'', n_link = js ''https://a.example/2'', n_description = js ''second'',
      n_pubDate = js ''2024-01-02'', n_guid = GuidStr (js ''g2''),
      n_image = js ''https://a.example/2.jpg'', n_domain = js ''a.example'',
      n_needsImage = False\<rparr>"

definition product_url :: jstring where
  "product_url = js ''https://www.daraz.com.bd/x''"

definition cable_url :: jstring where
  "cable_url = js ''https://www.daraz.com.bd/c''"

definition sitemap_url :: jstring where
  "sitemap_url = js ''https://www.daraz.com.bd/sitemap.xml''"

definition shop_page :: page_dom where
  "shop_page =
     \<lparr>meta_property_og_title = Some (js ''Phone X''), meta_name_og_title = None,
      title_text = js ''Phone X | Shop'', meta_property_og_description = None,
      meta_name_og_description = None, meta_name_description = Some (js ''A phone''),
      meta_property_og_image = Some (js ''/img/x.jpg''), meta_name_og_image = None,
      first_text = (\<lambda>selector.
         if selector = js ''.pdp-price'' then js ''Price in Tk''
         else if selector = js ''#module_product_price_1 span'' then taka @ js '' 1,200 ''
         else [])\<rparr>"

definition cable_page :: page_dom where
  "cable_page =
     \<lparr>meta_property_og_title = None, meta_name_og_title = None,
      title_text = js ''Cable'', meta_property_og_description = None,
      meta_name_og_description = None, meta_name_description = None,
      meta_property_og_image = None, meta_name_og_image = None,
      first_text = (\<lambda>selector. [])\<rparr>"

definition daraz_source :: ProductSource where
  "daraz_source =
     \<lparr>src_sitemap = sitemap_url, src_xpath = js ''//loc'', src_domain = js ''www.daraz.com.bd''\<rparr>"

definition down_source :: ProductSource where
  "down_source =
     \<lparr>src_sitemap = down_url, src_xpath = js ''//loc'', src_domain = js ''down.example''\<rparr>"

definition phone :: Product where
  "phone =
     \<lparr>p_id = js ''aHR0cHM6Ly93d3cu'', p_title = js ''Phone X'', p_description = js ''A phone'',
      p_image = js ''https://www.daraz.com.bd/img/x.jpg'', p_price = js ''Price in Tk'',
      p_url = product_url, p_domain = js ''www.daraz.com.bd''\<rparr>"

definition cable :: Product where
  "cable =
     \<lparr>p_id = js ''aHR0cHM6Ly93d3cu'', p_title = js ''Cable'', p_description = [],
      p_image = [], p_price = js ''Price not available'',
      p_url = cable_url, p_domain = js ''www.daraz.com.bd''\<rparr>"

definition live_entry :: yt_entry where
  "live_entry =
     \<lparr>entry_id = Some (js ''yt:video:v1''), entry_videoId = Some (js ''v1''),
      entry_title = Some (js ''Live''), entry_author_name = Some (js ''Chan''),
      entry_published = Some (js ''soon''),
      entry_statistics = StatisticsAttrs (Some (js ''5''))\<rparr>"

definition talk_entry :: yt_entry where
  "talk_entry =
     \<lparr>entry_id = Some (js ''yt:video:v2''), entry_videoId = Some (js ''v2''),
      entry_title = Some (js ''Talk''), entry_author_name = Some (js ''Chan''),
      entry_published = Some (js ''2024-01-02''),
      entry_statistics = StatisticsAttrs None\<rparr>"

definition untitled_entry :: yt_entry where
  "untitled_entry =
     \<lparr>entry_id = Some (js ''yt:video:v3''), entry_videoId = Some (js ''v3''),
      entry_title = Some [], entry_author_name = Some (js ''Chan''),
      entry_published = Some (js ''2024-01-01''),
      entry_statistics = StatisticsAttrs (Some (js ''7''))\<rparr>"

definition unrated_entry :: yt_entry where
  "unrated_entry =
     \<lparr>entry_id = Some (js ''yt:video:v4''), entry_videoId = Some (js ''v4''),
      entry_title = Some (js ''Clip''), entry_author_name = Some (js ''Chan''),
      entry_published = Some (js ''2024-01-01''),
      entry_statistics = NoMediaStatistics\<rparr>"

definition live_video :: VideoItem where
  "live_video =
     \<lparr>v_id = js ''yt:video:v1'', v_videoId = js ''v1'', v_title = js ''Live'',
      v_thumbnail = js ''https://i.ytimg.com/vi/v1/mqdefault.jpg'', v_channelName = js ''Chan'',
      v_published = js ''soon'', v_views = js ''5''\<rparr>"

definition talk_video :: VideoItem where
  "talk_video =
     \<lparr>v_id = js ''yt:video:v2'', v_videoId = js ''v2'', v_title = js ''Talk'',
      v_thumbnail = js ''https://i.ytimg.com/vi/v2/mqdefault.jpg'', v_channelName = js ''Chan'',
      v_published = js ''2024-01-02'', v_views = js ''0''\<rparr>"

definition untitled_video :: VideoItem where
  "untitled_video =
     \<lparr>v_id = js ''yt:video:v3'', v_videoId = js ''v3'', v_title = [],
      v_thumbnail = js ''https://i.ytimg.com/vi/v3/mqdefault.jpg'', v_channelName = js ''Chan'',
      v_published = js ''2024-01-01'', v_views = js ''7''\<rparr>"

definition demo_world :: world where
  "demo_world =
     \<lparr>rss_feed = (\<lambda>url. if url = feed_url
                          then Parsed (Some [old_item, new_item, untitled_item])
                          else NetworkError),
      hostname = (\<lambda>url. if url = feed_url then Some (js ''a.example'') else None),
      page_html = (\<lambda>url. if url = js ''https://a.example/1''
                           then Parsed (js ''<html><head></head></html>'')
                           else HttpError 404),
      og_image_match = (\<lambda>html. None),
      getTime = (\<lambda>s. if s = js ''2024-01-01'' then Num 1704067200000
                       else if s = js ''2024-01-02'' then Num 1704153600000
                       else if s = js ''2024-01-03'' then Num 1704240000000
                       else NaN),
      sitemap_xml = (\<lambda>url. if url = sitemap_url
                             then Parsed (Some [Some product_url, None, Some cable_url, Some []])
                             else NetworkError),
      product_page = (\<lambda>url. if url = product_url then Parsed shop_page
                              else if url = cable_url then Parsed cable_page
                              else HttpError 404),
      base64 = (\<lambda>url. if url = product_url then js ''aHR0cHM6Ly93d3cuZGFyYXouY29tLmJkL3g=''
                        else if url = cable_url then js ''aHR0cHM6Ly93d3cuZGFyYXouY29tLmJkL2M=''
                        else []),
      localeCompare = (\<lambda>a b. if a = b then 0 else if a = js ''Cable'' then - 1 else 1),
      channel_feed = (\<lambda>url. if url = channel_url (js ''UC1'')
                              then Parsed (Feed (Some [live_entry, talk_entry]))
                              else if url = channel_url (js ''UC2'')
                              then Parsed (Feed (Some [untitled_entry]))
                              else if url = channel_url (js ''UC3'')
                              then Parsed (Feed (Some [talk_entry, unrated_entry]))
                              else NetworkError),
      toNumber = (\<lambda>s. if s = js ''1'' then Num 1 else NaN)\<rparr>"

section \<open>Arrays: slice and sort\<close>

lemma js_slice_take_drop:
  "0 \<le> off \<Longrightarrow> 0 \<le> lim \<Longrightarrow>
   js_slice xs (Num off) (Num (off + lim)) = take (nat lim) (drop (nat off) xs)"
  by (auto simp: js_slice_def rel_index_def Let_def min_def nat_add_distrib)

lemma bitlen_numeral: "bitlen (numeral k) = num_bits k"
proof (induction k)
  case One
  then show ?case by (simp add: bitlen.simps)
next
  case (Bit0 k)
  have "bitlen (numeral (Num.Bit0 k)) = Suc (bitlen (numeral (Num.Bit0 k) div 2))"
    by (subst bitlen.simps) simp
  with Bit0 show ?case by simp
next
  case (Bit1 k)
  have "bitlen (numeral (Num.Bit1 k)) = Suc (bitlen (numeral (Num.Bit1 k) div 2))"
    by (subst bitlen.simps) simp
  with Bit1 show ?case by simp
qed

lemma bitlen_code [code]:
  "bitlen 0 = 0" "bitlen (Int.Pos k) = num_bits k" "bitlen (Int.Neg k) = 0"
  by (simp_all add: bitlen_numeral) (simp_all add: bitlen.simps)

lemma bitlen_bound: "m < 2 ^ k \<Longrightarrow> bitlen m \<le> k"
proof (induction k arbitrary: m)
  case 0
  then show ?case by (simp add: bitlen.simps)
next
  case (Suc k)
  from Suc.prems have "m div 2 < 2 ^ k" by simp
  then have "bitlen (m div 2) \<le> k" by (rule Suc.IH)
  then show ?case by (subst bitlen.simps) simp
qed

lemma round_double_small: "\<bar>n\<bar> < 2 ^ 53 \<Longrightarrow> round_double n = Num n"
  by (simp add: round_double_def Let_def bitlen_bound)

lemma set_insort_cmp: "set (insort_cmp cmp x xs) = insert x (set xs)"
  by (induction xs) auto

lemma set_js_sort: "set (js_sort cmp xs) = set xs"
  by (induction xs) (simp_all add: js_sort_def set_insort_cmp)

lemma length_insort_cmp: "length (insort_cmp cmp x xs) = Suc (length xs)"
  by (induction xs) auto

lemma length_js_sort: "length (js_sort cmp xs) = length xs"
  by (induction xs) (simp_all add: js_sort_def length_insort_cmp)

lemma set_js_slice: "set (js_slice xs a b) \<subseteq> set xs"
proof -
  have "set (take n (drop k xs)) \<subseteq> set xs" for n k
    using set_take_subset set_drop_subset by fast
  then show ?thesis by (simp add: js_slice_def Let_def)
qed

lemma respond_simps:
  "resp_items (respond page allItems offset limit) = page"
  "resp_total (respond page allItems offset limit) = length allItems"
  "resp_hasMore (respond page allItems offset limit)
     = js_lt (js_add offset limit) (Num (int (length allItems)))"
  by (simp_all add: respond_def)

lemma fetchRSSFeed_valid:
  "item \<in> set (fetchRSSFeed w url) \<Longrightarrow> n_title item \<noteq> [] \<and> n_link item \<noteq> []"
  by (auto simp: fetchRSSFeed_def fetchRSSFeed_try_def Let_def
        split: fetched.splits option.splits sum.splits)

lemma news_allItems_valid:
  "item \<in> set (news_allItems w urls) \<Longrightarrow>
     n_title item \<noteq> [] \<and> n_link item \<noteq> [] \<and> n_pubDate item \<noteq> []"
  by (auto simp: news_allItems_def set_js_sort dest: fetchRSSFeed_valid)

lemma enrichItem_fst:
  "fst (enrichItem w item) =
     (if n_needsImage item \<and> n_link item \<noteq> []
      then item\<lparr>n_image := (case fetchOGImageFromPage w (n_link item) of None \<Rightarrow> [] | Some u \<Rightarrow> u),
                n_needsImage := False\<rparr>
      else item)"
  by (simp add: enrichItem_def Let_def)

lemma enrichItem_snd:
  "snd (enrichItem w item) = (if n_needsImage item \<and> n_link item \<noteq> [] then [n_link item] else [])"
  by (simp add: enrichItem_def Let_def)

lemma enrich_requests:
  "(\<And>item. item \<in> set xs \<Longrightarrow> n_link item \<noteq> []) \<Longrightarrow>
   snd (enrichItemsWithImages w xs) = map n_link (filter n_needsImage xs)"
  by (induction xs) (simp_all add: enrichItemsWithImages_def enrichItem_snd)

lemma fetchOGImage_failure:
  "(case page_html w link of Parsed html \<Rightarrow> og_image_match w html = None | _ \<Rightarrow> True) \<Longrightarrow>
   fetchOGImageFromPage w link = None"
  by (auto simp: fetchOGImageFromPage_def split: fetched.splits)

section \<open>The small world, evaluated\<close>

lemma demo_feed: "rss_feed demo_world feed_url = Parsed (Some [old_item, new_item, untitled_item])"
  and demo_feed_down: "rss_feed demo_world down_url = NetworkError"
  and demo_hostname: "hostname demo_world feed_url = Some (js ''a.example'')"
  by (simp_all add: demo_world_def feed_url_def down_url_def js_def)

lemma demo_items:
  "newsItem_of d old_item = old_news\<lparr>n_domain := d\<rparr>"
  "newsItem_of d new_item = new_news\<lparr>n_domain := d\<rparr>"
  "n_title (newsItem_of d untitled_item) = []"
  by (simp_all add: newsItem_of_def old_item_def new_item_def untitled_item_def old_news_def
        new_news_def or_undef_def or_str_def js_def)

lemma demo_fetchRSSFeed: "fetchRSSFeed demo_world feed_url = [old_news, new_news]"
  unfolding fetchRSSFeed_def fetchRSSFeed_try_def demo_feed demo_hostname
  by (simp add: demo_items) (simp add: old_news_def new_news_def js_def)

lemma demo_fetchRSSFeed_down: "fetchRSSFeed demo_world down_url = []"
  unfolding fetchRSSFeed_def fetchRSSFeed_try_def demo_feed_down by simp

lemma demo_getTime:
  "getTime demo_world (n_pubDate old_news) = Num 1704067200000"
  "getTime demo_world (n_pubDate new_news) = Num 1704153600000"
  by (simp_all add: demo_world_def old_news_def new_news_def js_def)

lemma demo_news_compare:
  "sort_compare (news_compare demo_world) old_news new_news = 86400000"
  by (simp add: sort_compare_def news_compare_def demo_getTime)

lemma demo_news_allItems: "news_allItems demo_world [feed_url] = [new_news, old_news]"
proof -
  have "n_pubDate old_news \<noteq> []" "n_pubDate new_news \<noteq> []"
    by (simp_all add: old_news_def new_news_def js_def)
  then show ?thesis
    by (simp add: news_allItems_def demo_fetchRSSFeed js_sort_def demo_news_compare)
qed


lemma query_defaults:
  "query_int None (js ''0'') = Num 0" "query_int (Some []) (js ''0'') = Num 0"
  "query_int None (js ''30'') = Num 30" "query_int (Some []) (js ''30'') = Num 30"
  "query_int None (js ''20'') = Num 20" "query_int (Some []) (js ''20'') = Num 20"
  by (simp_all add: query_int_def or_undef_def or_str_def parseInt_def js_def is_space_def
        startsWith_def digits_value_def Let_def round_double_small)

lemma demo_page: "js_slice (news_allItems demo_world [feed_url]) (Num 0) (js_add (Num 0) (Num 30))
     = [new_news, old_news]"
  by (simp add: demo_news_allItems js_slice_def rel_index_def)

lemma demo_flags: "n_needsImage old_news" "\<not> n_needsImage new_news"
  by (simp_all add: old_news_def new_news_def)

lemma demo_og: "page_html demo_world (n_link old_news) = Parsed (js ''<html><head></head></html>'')"
  "og_image_match demo_world html = None"
  by (simp_all add: demo_world_def old_news_def)

section \<open>The enrichment pass\<close>

text \<open>
  C8. The enrichment pass of the news handler works on the page, not on the aggregate: the
  pages it requests are the links of the page items flagged \<open>needsImage\<close>, in order. A
  page item that is not flagged is returned as it is. A flagged one is returned with
  \<open>needsImage\<close> false and with the image the page gave, which is the empty string when
  the request fails or the markup has no Open-Graph image; nothing is thrown. No other
  field of a page item changes.
\<close>

theorem enrichment_frame:
  "let offset = query_int op (js ''0''); limit = query_int lp (js ''30'');
       page = js_slice (news_allItems w urls) offset (js_add offset limit);
       answer = GET_news w urls op lp
   in snd answer = map n_link (filter n_needsImage page) \<and>
      length (resp_items (fst answer)) = length page \<and>
      (\<forall>i < length page.
         let item = page ! i; out = resp_items (fst answer) ! i in
         (\<not> n_needsImage item \<longrightarrow> out = item) \<and>
         (n_needsImage item \<longrightarrow>
            out = item\<lparr>n_image := (case fetchOGImageFromPage w (n_link item) of
                                     None \<Rightarrow> [] | Some u \<Rightarrow> u),
                       n_needsImage := False\<rparr>) \<and>
         ((case page_html w (n_link item) of
             Parsed html \<Rightarrow> og_image_match w html = None | _ \<Rightarrow> True)
            \<longrightarrow> n_needsImage item \<longrightarrow> n_image out = []) \<and>
         out\<lparr>n_image := n_image item, n_needsImage := n_needsImage item\<rparr> = item)"
proof -
  define offset where "offset = query_int op (js ''0'')"
  define limit where "limit = query_int lp (js ''30'')"
  define page where "page = js_slice (news_allItems w urls) offset (js_add offset limit)"
  have links: "n_link item \<noteq> []" if "item \<in> set page" for item
  proof -
    from that have "item \<in> set (news_allItems w urls)"
      unfolding page_def using set_js_slice [of "news_allItems w urls"] by blast
    then show ?thesis by (simp add: news_allItems_valid)
  qed
  have answer: "GET_news w urls op lp =
      (respond (fst (enrichItemsWithImages w page)) (news_allItems w urls) offset limit,
       snd (enrichItemsWithImages w page))"
    by (simp add: GET_news_def news_page_def Let_def page_def offset_def limit_def)
  have reqs: "snd (GET_news w urls op lp) = map n_link (filter n_needsImage page)"
    using links by (simp add: answer enrich_requests)
  have items: "resp_items (fst (GET_news w urls op lp)) = map (\<lambda>item. fst (enrichItem w item)) page"
    by (simp add: answer respond_simps enrichItemsWithImages_def)
  have each: "(\<not> n_needsImage (page ! i) \<longrightarrow> fst (enrichItem w (page ! i)) = page ! i) \<and>
      (n_needsImage (page ! i) \<longrightarrow>
         fst (enrichItem w (page ! i)) =
           (page ! i)\<lparr>n_image := (case fetchOGImageFromPage w (n_link (page ! i)) of
                                    None \<Rightarrow> [] | Some u \<Rightarrow> u),
                      n_needsImage := False\<rparr>) \<and>
      ((case page_html w (n_link (page ! i)) of
             Parsed html \<Rightarrow> og_image_match w html = None | _ \<Rightarrow> True)
         \<longrightarrow> n_needsImage (page ! i) \<longrightarrow> n_image (fst (enrichItem w (page ! i))) = []) \<and>
      (fst (enrichItem w (page ! i)))\<lparr>n_image := n_image (page ! i),
         n_needsImage := n_needsImage (page ! i)\<rparr> = page ! i"
    if "i < length page" for i
  proof -
    from that have "n_link (page ! i) \<noteq> []" using links by simp
    then show ?thesis
      by (auto simp: enrichItem_fst dest: fetchOGImage_failure)
  qed
  have len: "length (resp_items (fst (GET_news w urls op lp))) = length page"
    by (simp add: items)
  have out: "resp_items (fst (GET_news w urls op lp)) ! i = fst (enrichItem w (page ! i))"
    if "i < length page" for i
    using that by (simp add: items)
  have every: "\<forall>i < length page.
         (\<not> n_needsImage (page ! i) \<longrightarrow> resp_items (fst (GET_news w urls op lp)) ! i = page ! i) \<and>
         (n_needsImage (page ! i) \<longrightarrow>
            resp_items (fst (GET_news w urls op lp)) ! i =
              (page ! i)\<lparr>n_image := (case fetchOGImageFromPage w (n_link (page ! i)) of
                                     None \<Rightarrow> [] | Some u \<Rightarrow> u),
                       n_needsImage := False\<rparr>) \<and>
         ((case page_html w (n_link (page ! i)) of
             Parsed html \<Rightarrow> og_image_match w html = None | _ \<Rightarrow> True)
            \<longrightarrow> n_needsImage (page ! i)
            \<longrightarrow> n_image (resp_items (fst (GET_news w urls op lp)) ! i) = []) \<and>
         (resp_items (fst (GET_news w urls op lp)) ! i)\<lparr>n_image := n_image (page ! i),
            n_needsImage := n_needsImage (page ! i)\<rparr> = page ! i"
  proof (intro allI impI)
    fix i assume i: "i < length page"
    show "(\<not> n_needsImage (page ! i) \<longrightarrow> resp_items (fst (GET_news w urls op lp)) ! i = page ! i) \<and>
         (n_needsImage (page ! i) \<longrightarrow>
            resp_items (fst (GET_news w urls op lp)) ! i =
              (page ! i)\<lparr>n_image := (case fetchOGImageFromPage w (n_link (page ! i)) of
                                     None \<Rightarrow> [] | Some u \<Rightarrow> u),
                       n_needsImage := False\<rparr>) \<and>
         ((case page_html w (n_link (page ! i)) of
             Parsed html \<Rightarrow> og_image_match w html = None | _ \<Rightarrow> True)
            \<longrightarrow> n_needsImage (page ! i)
            \<longrightarrow> n_image (resp_items (fst (GET_news w urls op lp)) ! i) = []) \<and>
         (resp_items (fst (GET_news w urls op lp)) ! i)\<lparr>n_image := n_image (page ! i),
            n_needsImage := n_needsImage (page ! i)\<rparr> = page ! i"
      unfolding out [OF i] by (rule each [OF i])
  qed
  show ?thesis
    unfolding Let_def offset_def [symmetric] limit_def [symmetric] page_def [symmetric]
    by (intro conjI) (rule reqs len every)+
qed

theorem enrichment_frame_witness:
  "js_slice (news_allItems demo_world [feed_url]) (Num 0) (js_add (Num 0) (Num 30))
     = [new_news, old_news] \<and>
   n_needsImage old_news \<and> \<not> n_needsImage new_news \<and>
   page_html demo_world (n_link old_news) = Parsed (js ''<html><head></head></html>'') \<and>
   og_image_match demo_world (js ''<html><head></head></html>'') = None \<and>
   snd (GET_news demo_world [feed_url] None None) = [n_link old_news] \<and>
   resp_items (fst (GET_news demo_world [feed_url] None None)) ! 0 = new_news \<and>
   resp_items (fst (GET_news demo_world [feed_url] None None)) ! 1
     = old_news\<lparr>n_image := [], n_needsImage := False\<rparr>"
proof -
  note inst = enrichment_frame [of None None demo_world "[feed_url]",
      unfolded Let_def query_defaults demo_page]
  from inst have reqs: "snd (GET_news demo_world [feed_url] None None) = [n_link old_news]"
    by (simp add: demo_flags)
  note every = inst [THEN conjunct2, THEN conjunct2, rule_format]
  from every [of 0] have first:
    "resp_items (fst (GET_news demo_world [feed_url] None None)) ! 0 = new_news"
    by (simp add: demo_flags)
  from fetchOGImage_failure [of demo_world "n_link old_news"]
  have none: "fetchOGImageFromPage demo_world (n_link old_news) = None"
    by (simp add: demo_og)
  from every [of 1] have second:
    "resp_items (fst (GET_news demo_world [feed_url] None None)) ! 1
       = old_news\<lparr>n_image := [], n_needsImage := False\<rparr>"
    by (simp add: demo_flags none)
  show ?thesis
    using reqs first second by (simp add: demo_page [simplified] demo_flags demo_og)
qed

section \<open>Price extraction\<close>

lemma try_selectors_append:
  "\<forall>s \<in> set before. \<not> has_currency_marker (trim (first_text page s)) \<Longrightarrow>
   has_currency_marker (trim (first_text page selector)) \<Longrightarrow>
   try_selectors page (before @ selector # rest) price = cut_price (trim (first_text page selector))"
  by (induction before) (simp_all add: Let_def)

lemma try_selectors_first:
  "chain = before @ selector # rest \<Longrightarrow>
   \<forall>s \<in> set before. \<not> has_currency_marker (trim (first_text page s)) \<Longrightarrow>
   has_currency_marker (trim (first_text page selector)) \<Longrightarrow>
   try_selectors page chain price = cut_price (trim (first_text page selector))"
  by (simp add: try_selectors_append)

lemma try_selectors_none:
  "\<forall>s \<in> set chain. \<not> has_currency_marker (trim (first_text page s)) \<Longrightarrow>
   try_selectors page chain price = price"
  by (induction chain) (simp_all add: Let_def)

lemma demo_product_pages:
  "product_page demo_world product_url = Parsed shop_page"
  "product_page demo_world cable_url = Parsed cable_page"
  "base64 demo_world product_url = js ''aHR0cHM6Ly93d3cuZGFyYXouY29tLmJkL3g=''"
  "base64 demo_world cable_url = js ''aHR0cHM6Ly93d3cuZGFyYXouY29tLmJkL2M=''"
  by (simp_all add: demo_world_def product_url_def cable_url_def js_def)

lemma domain_marks:
  "js_includes (js ''www.daraz.com.bd'') (js ''daraz'')"
  "\<not> js_includes (js ''www.daraz.com.bd'') (js ''pickaboo'')"
  "\<not> js_includes (js ''shop.example'') (js ''daraz'')"
  "\<not> js_includes (js ''shop.example'') (js ''pickaboo'')"
  by (simp_all add: js_def startsWith_def)

lemma shop_texts:
  "trim (first_text shop_page (daraz_selectors ! 0)) = []"
  "trim (first_text shop_page (daraz_selectors ! Suc 0)) = js ''Price in Tk''"
  "trim (first_text shop_page (daraz_selectors ! 2)) = taka @ js '' 1,200''"
  by (simp_all add: daraz_selectors_def shop_page_def js_def trim_def is_space_def taka_def)

lemma shop_markers:
  "\<not> has_currency_marker []"
  "has_currency_marker (js ''Price in Tk'')"
  "has_currency_marker (taka @ js '' 1,200'')"
  by (simp_all add: has_currency_marker_def js_def taka_def startsWith_def)

lemma shop_matches:
  "match_price (js ''Price in Tk'') = None"
  "match_price (taka @ js '' 1,200'') = Some (taka @ js '' 1,200'')"
  by (simp_all add: js_def taka_def match_marker_at_def startsWith_def is_space_def
        is_price_char_def Let_def)

lemma daraz_chain:
  "daraz_selectors = [daraz_selectors ! 0] @ (daraz_selectors ! Suc 0) # drop 2 daraz_selectors"
  by (simp add: daraz_selectors_def)

lemma shop_price_daraz: "extract_price shop_page (js ''www.daraz.com.bd'') = js ''Price in Tk''"
proof -
  have "try_selectors shop_page daraz_selectors price_not_available = js ''Price in Tk''"
    using try_selectors_first [OF daraz_chain, of shop_page price_not_available]
    by (simp add: shop_texts shop_markers cut_price_def shop_matches or_undef_def)
  then show ?thesis by (simp add: extract_price_def domain_marks)
qed

lemma scraped_price:
  "product_page w url = Parsed page \<Longrightarrow> scrapeProductDataFast w url domain = Some product \<Longrightarrow>
   p_price product = extract_price page domain"
  by (auto simp: scrapeProductDataFast_def scrapeProductDataFast_try_def Let_def
        split: if_splits)

text \<open>
  C10. Only a domain whose name contains "pickaboo" or "daraz" has a chain of price
  selectors: for any other domain the extracted price is "Price not available" whatever
  the page holds, and so is the price of every product scraped from it.
\<close>

theorem price_sentinel_outside_pickaboo_daraz:
  assumes "\<not> js_includes domain (js ''pickaboo'')" and "\<not> js_includes domain (js ''daraz'')"
  shows "extract_price page domain = js ''Price not available'' \<and>
         (\<forall>product. scrapeProductDataFast w url domain = Some product
            \<longrightarrow> p_price product = js ''Price not available'')"
  using assms
  by (auto simp: scrapeProductDataFast_def scrapeProductDataFast_try_def extract_price_def
        price_not_available_def Let_def split: fetched.splits if_splits)

lemma demo_scrape_elsewhere:
  "scrapeProductDataFast demo_world product_url (js ''shop.example'') \<noteq> None"
  unfolding scrapeProductDataFast_def scrapeProductDataFast_try_def demo_product_pages
  by (simp add: shop_page_def or_undef_def or_str_def trim_def is_space_def js_def Let_def)

theorem price_sentinel_outside_pickaboo_daraz_witness:
  "\<not> js_includes (js ''shop.example'') (js ''pickaboo'') \<and>
   \<not> js_includes (js ''shop.example'') (js ''daraz'') \<and>
   product_page demo_world product_url = Parsed shop_page \<and>
   trim (first_text shop_page (daraz_selectors ! 2)) = taka @ js '' 1,200'' \<and>
   map_option p_price (scrapeProductDataFast demo_world product_url (js ''shop.example''))
     = Some (js ''Price not available'')"
proof -
  from price_sentinel_outside_pickaboo_daraz
         [OF domain_marks(4) domain_marks(3), of shop_page demo_world product_url]
  have "\<forall>product. scrapeProductDataFast demo_world product_url (js ''shop.example'') = Some product
          \<longrightarrow> p_price product = js ''Price not available''"
    by (rule conjunct2)
  with demo_scrape_elsewhere
  have "map_option p_price (scrapeProductDataFast demo_world product_url (js ''shop.example''))
     = Some (js ''Price not available'')" by auto
  then show ?thesis
    by (simp add: domain_marks demo_product_pages shop_texts)
qed

text \<open>
  C5, as the code has it. For a domain with a chain, the selectors are tried in their
  listed order, and the first one whose trimmed text is not empty and contains the taka
  sign or "Tk" decides the price: the first match of the pattern "marker, white space,
  digits and commas" in that text, or the whole text when the pattern does not match.
  When no selector of the chain has such a text the price is "Price not available". The
  price of a scraped product is the price so extracted from its page.
\<close>

theorem price_first_marked_selector:
  assumes "js_includes domain (js ''pickaboo'') \<or> js_includes domain (js ''daraz'')"
  shows "let chain = (if js_includes domain (js ''pickaboo'') then pickaboo_selectors
                      else daraz_selectors)
         in (\<forall>before selector rest.
               chain = before @ selector # rest \<and>
               (\<forall>s \<in> set before. \<not> has_currency_marker (trim (first_text page s))) \<and>
               has_currency_marker (trim (first_text page selector))
               \<longrightarrow> extract_price page domain
                     = (case match_price (trim (first_text page selector)) of
                          Some m \<Rightarrow> m | None \<Rightarrow> trim (first_text page selector))) \<and>
            ((\<forall>s \<in> set chain. \<not> has_currency_marker (trim (first_text page s)))
               \<longrightarrow> extract_price page domain = js ''Price not available'') \<and>
            (\<forall>product. product_page w url = Parsed page \<and>
                scrapeProductDataFast w url domain = Some product
                \<longrightarrow> p_price product = extract_price page domain)"
proof -
  have cut: "cut_price t = (case match_price t of Some m \<Rightarrow> m | None \<Rightarrow> t)"
    if "has_currency_marker t" for t
  proof (cases "match_price t")
    case None
    then show ?thesis by (simp add: cut_price_def or_undef_def)
  next
    case (Some m)
    have "match_price s = Some m \<Longrightarrow> m \<noteq> []" for s
      by (induction s) (auto simp: match_marker_at_def Let_def split: if_splits option.splits)
    with Some show ?thesis by (simp add: cut_price_def or_undef_def or_str_def)
  qed
  have first: "try_selectors page chain price
      = (case match_price (trim (first_text page selector)) of
           Some m \<Rightarrow> m | None \<Rightarrow> trim (first_text page selector))"
    if "chain = before @ selector # rest"
      and "\<forall>s \<in> set before. \<not> has_currency_marker (trim (first_text page s))"
      and "has_currency_marker (trim (first_text page selector))"
    for chain before selector rest price
    using that by (simp add: try_selectors_first cut)
  show ?thesis
    using assms
    by (auto simp: Let_def extract_price_def first try_selectors_none
          price_not_available_def scraped_price)
qed

theorem price_first_marked_selector_witness:
  "js_includes (js ''www.daraz.com.bd'') (js ''daraz'') \<and>
   daraz_selectors = [daraz_selectors ! 0] @ (daraz_selectors ! 1) # drop 2 daraz_selectors \<and>
   \<not> has_currency_marker (trim (first_text shop_page (daraz_selectors ! 0))) \<and>
   has_currency_marker (trim (first_text shop_page (daraz_selectors ! 1))) \<and>
   extract_price shop_page (js ''www.daraz.com.bd'') = js ''Price in Tk''"
proof -
  note inst = price_first_marked_selector [of "js ''www.daraz.com.bd''" shop_page demo_world product_url,
      unfolded Let_def, THEN conjunct1, rule_format,
      of "[daraz_selectors ! 0]" "daraz_selectors ! 1" "drop 2 daraz_selectors"]
  have "extract_price shop_page (js ''www.daraz.com.bd'') = js ''Price in Tk''"
    using inst daraz_chain by (simp add: domain_marks shop_texts shop_markers shop_matches)
  then show ?thesis
    using daraz_chain by (simp add: domain_marks shop_texts shop_markers)
qed

text \<open>
  C5 as stated asks for a marker followed by digits. On the page below the second
  selector of the chain reads "Price in Tk", where no digits follow the marker, and the
  third reads the taka sign and "1,200": the price is taken from the second.
\<close>

theorem price_marker_without_digits_counterexample:
  "js_includes (js ''www.daraz.com.bd'') (js ''daraz'') \<and>
   match_price (trim (first_text shop_page (daraz_selectors ! 0))) = None \<and>
   match_price (trim (first_text shop_page (daraz_selectors ! 1))) = None \<and>
   match_price (trim (first_text shop_page (daraz_selectors ! 2))) = Some (taka @ js '' 1,200'') \<and>
   extract_price shop_page (js ''www.daraz.com.bd'') = js ''Price in Tk'' \<and>
   js ''Price in Tk'' \<noteq> taka @ js '' 1,200''"
  by (simp add: domain_marks shop_texts shop_matches shop_price_daraz) (simp add: js_def taka_def)

section \<open>The order of the news aggregate\<close>

text \<open>
  The comparator of the news route is a consistent one, so the aggregate is sorted by
  it: newest first, the items with an unparsable date last, and items with the same time
  (or all without one) in the order the feeds gave them.
\<close>

lemma sorted_insort_cmp:
  assumes total: "\<And>a b. 0 < sort_compare cmp a b \<Longrightarrow> sort_compare cmp b a \<le> 0"
    and trans: "\<And>a b c. sort_compare cmp a b \<le> 0 \<Longrightarrow> sort_compare cmp b c \<le> 0
                  \<Longrightarrow> sort_compare cmp a c \<le> 0"
    and "sorted_wrt (\<lambda>a b. sort_compare cmp a b \<le> 0) ys"
  shows "sorted_wrt (\<lambda>a b. sort_compare cmp a b \<le> 0) (insort_cmp cmp x ys)"
  using assms(3)
proof (induction ys)
  case Nil
  then show ?case by simp
next
  case (Cons y ys)
  show ?case
  proof (cases "0 < sort_compare cmp x y")
    case True
    with Cons total [OF True] show ?thesis
      by (auto simp: set_insort_cmp)
  next
    case False
    then have xy: "sort_compare cmp x y \<le> 0" by simp
    with Cons.prems have "\<forall>z \<in> set ys. sort_compare cmp x z \<le> 0"
      by (auto intro: trans)
    with Cons.prems xy False show ?thesis by simp
  qed
qed

lemma sorted_js_sort:
  assumes "\<And>a b. 0 < sort_compare cmp a b \<Longrightarrow> sort_compare cmp b a \<le> 0"
    and "\<And>a b c. sort_compare cmp a b \<le> 0 \<Longrightarrow> sort_compare cmp b c \<le> 0
                  \<Longrightarrow> sort_compare cmp a c \<le> 0"
  shows "sorted_wrt (\<lambda>a b. sort_compare cmp a b \<le> 0) (js_sort cmp xs)"
proof (induction xs)
  case Nil
  then show ?case by (simp add: js_sort_def)
next
  case (Cons x xs)
  have "js_sort cmp (x # xs) = insort_cmp cmp x (js_sort cmp xs)"
    by (simp add: js_sort_def)
  with Cons sorted_insort_cmp [of cmp, OF assms] show ?case by simp
qed

lemma filter_insort_cmp:
  assumes "\<And>y. 0 < sort_compare cmp x y \<Longrightarrow> key y \<noteq> key x"
  shows "filter (\<lambda>y. key y = k) (insort_cmp cmp x ys)
           = filter (\<lambda>y. key y = k) (x # ys)"
proof (induction ys)
  case Nil
  then show ?case by simp
next
  case (Cons y ys)
  show ?case
  proof (cases "0 < sort_compare cmp x y")
    case True
    then have "key y \<noteq> key x" by (rule assms)
    with True Cons show ?thesis by auto
  next
    case False
    then show ?thesis by simp
  qed
qed

lemma stable_js_sort:
  assumes "\<And>x y. 0 < sort_compare cmp x y \<Longrightarrow> key y \<noteq> key x"
  shows "filter (\<lambda>y. key y = k) (js_sort cmp xs) = filter (\<lambda>y. key y = k) xs"
proof (induction xs)
  case Nil
  then show ?case by (simp add: js_sort_def)
next
  case (Cons x xs)
  have "js_sort cmp (x # xs) = insort_cmp cmp x (js_sort cmp xs)"
    by (simp add: js_sort_def)
  with Cons filter_insort_cmp [of cmp x key k, OF assms] show ?case by simp
qed

lemma news_compare_sign:
  "sort_compare (news_compare w) a b \<le> 0 \<longleftrightarrow>
     isNaN (getTime w (n_pubDate b)) \<or>
     (\<not> isNaN (getTime w (n_pubDate a)) \<and>
      \<not> js_lt (getTime w (n_pubDate a)) (getTime w (n_pubDate b)))"
  by (cases "getTime w (n_pubDate a)"; cases "getTime w (n_pubDate b)";
      simp add: sort_compare_def news_compare_def Let_def not_less)

lemma news_compare_total:
  "0 < sort_compare (news_compare w) a b \<Longrightarrow> sort_compare (news_compare w) b a \<le> 0"
  by (cases "getTime w (n_pubDate a)"; cases "getTime w (n_pubDate b)";
      simp add: sort_compare_def news_compare_def Let_def)

lemma news_compare_trans:
  "sort_compare (news_compare w) a b \<le> 0 \<Longrightarrow> sort_compare (news_compare w) b c \<le> 0 \<Longrightarrow>
   sort_compare (news_compare w) a c \<le> 0"
  by (cases "getTime w (n_pubDate a)"; cases "getTime w (n_pubDate b)";
      cases "getTime w (n_pubDate c)";
      simp add: sort_compare_def news_compare_def Let_def)

lemma news_compare_apart:
  "0 < sort_compare (news_compare w) a b \<Longrightarrow> getTime w (n_pubDate b) \<noteq> getTime w (n_pubDate a)"
  by (cases "getTime w (n_pubDate a)"; cases "getTime w (n_pubDate b)";
      simp add: sort_compare_def news_compare_def Let_def)

lemma news_sorted_newest_first:
  "sorted_wrt (\<lambda>a b. isNaN (getTime w (n_pubDate b)) \<or>
                     (\<not> isNaN (getTime w (n_pubDate a)) \<and>
                      \<not> js_lt (getTime w (n_pubDate a)) (getTime w (n_pubDate b))))
     (news_allItems w urls)"
proof -
  have "sorted_wrt (\<lambda>a b. sort_compare (news_compare w) a b \<le> 0) (news_allItems w urls)"
    unfolding news_allItems_def
    by (rule sorted_js_sort) (erule news_compare_total, erule (1) news_compare_trans)
  then show ?thesis by (simp add: news_compare_sign)
qed

lemma news_sort_stable:
  "filter (\<lambda>item. getTime w (n_pubDate item) = t) (news_allItems w urls)
     = filter (\<lambda>item. getTime w (n_pubDate item) = t)
         (filter (\<lambda>item. n_pubDate item \<noteq> []) (concat (map (fetchRSSFeed w) urls)))"
  unfolding news_allItems_def
  by (rule stable_js_sort) (erule news_compare_apart)

section \<open>The video route, evaluated\<close>

lemma videoItem_thumbnail:
  "videoItem_of entry = Inr video \<Longrightarrow>
     entry_videoId entry = Some (v_videoId video) \<and>
     v_thumbnail video = js ''https://i.ytimg.com/vi/'' @ v_videoId video @ js ''/mqdefault.jpg''"
  by (auto simp: videoItem_of_def thumbnail_of_def split: option.splits sum.splits)

lemma videoItem_views_default:
  "videoItem_of entry = Inr video \<Longrightarrow> entry_statistics entry = StatisticsAttrs None \<Longrightarrow>
     v_views video = js ''0''"
  by (auto simp: videoItem_of_def or_undef_def split: option.splits sum.splits)

lemma videoItem_needs_statistics:
  "entry_statistics entry \<in> {NoMediaGroup, NoMediaCommunity, NoMediaStatistics, StatisticsPlain}
     \<Longrightarrow> isl (videoItem_of entry)"
  by (auto simp: videoItem_of_def split: option.splits)

lemma demo_channels:
  "channel_feed demo_world (channel_url (js ''UC1'')) = Parsed (Feed (Some [live_entry, talk_entry]))"
  "channel_feed demo_world (channel_url (js ''UC2'')) = Parsed (Feed (Some [untitled_entry]))"
  "channel_feed demo_world (channel_url (js ''UC3'')) = Parsed (Feed (Some [talk_entry, unrated_entry]))"
  "channel_feed demo_world (channel_url (js ''UC4'')) = NetworkError"
  by (simp_all add: demo_world_def channel_url_def js_def)

lemma demo_entries:
  "videoItem_of live_entry = Inr live_video"
  "videoItem_of talk_entry = Inr talk_video"
  "videoItem_of untitled_entry = Inr untitled_video"
  "videoItem_of unrated_entry = Inl TypeError"
  by (simp_all add: videoItem_of_def live_entry_def talk_entry_def untitled_entry_def
        unrated_entry_def live_video_def talk_video_def untitled_video_def thumbnail_of_def
        or_undef_def or_str_def js_def)

lemma demo_fetchChannel:
  "fetchChannel demo_world (js ''UC1'') = [live_video, talk_video]"
  "fetchChannel demo_world (js ''UC2'') = [untitled_video]"
  "fetchChannel demo_world (js ''UC3'') = []"
  "fetchChannel demo_world (js ''UC4'') = []"
  by (simp_all add: fetchChannel_def fetchChannel_try_def demo_channels demo_entries)

lemma demo_video_dates:
  "getTime demo_world (v_published live_video) = NaN"
  "getTime demo_world (v_published talk_video) = Num 1704153600000"
  by (simp_all add: demo_world_def live_video_def talk_video_def js_def)

lemma demo_sortedVideos:
  "sortedVideos demo_world [js ''UC1''] = [live_video, talk_video]"
  "sortedVideos demo_world [js ''UC2''] = [untitled_video]"
  by (simp_all add: sortedVideos_def demo_fetchChannel js_sort_def sort_compare_def
        video_compare_def demo_video_dates)

lemma video_defaults:
  "query_number w None d = Num d" "query_number w (Some []) d = Num d"
  by (simp_all add: query_number_def)

text \<open>
  C2 asks that an item with an unparsable date comes after every item with a parsable
  one, on the news and on the video route. The comparator of the news route tests for
  \<open>NaN\<close>; the one of the video route subtracts the two times, and with an unparsable
  date the difference is \<open>NaN\<close>, which \<open>sort\<close> reads as "equal". Here channel UC1 lists
  a video published "soon" before one published 2024-01-02, and the handler returns
  them in that order.
\<close>

theorem video_unparsable_date_first:
  "getTime demo_world (v_published live_video) = NaN \<and>
   getTime demo_world (v_published talk_video) = Num 1704153600000 \<and>
   fetchChannel demo_world (js ''UC1'') = [live_video, talk_video] \<and>
   resp_items (GET_videos demo_world [js ''UC1''] None None) = [live_video, talk_video]"
  by (simp add: GET_videos_def video_page_def video_defaults demo_sortedVideos respond_simps
        demo_video_dates demo_fetchChannel js_slice_def rel_index_def Let_def)

text \<open>
  C7 asks for \<open>views = "0"\<close> when the statistics of an entry are absent. The optional
  chaining of the normalizer comes after the index \<open>[0]\<close>, so an entry without a
  \<open>media:statistics\<close> element throws, and the \<open>catch\<close> of the channel drops every video of
  that channel: UC3 has a well-formed entry and one without statistics and yields
  nothing. (An entry whose statistics lack the \<open>views\<close> attribute does get "0".)
\<close>

theorem video_missing_statistics_throws:
  "entry_statistics unrated_entry = NoMediaStatistics \<and>
   videoItem_of unrated_entry = Inl TypeError \<and>
   videoItem_of talk_entry = Inr talk_video \<and>
   fetchChannel_try demo_world (js ''UC3'') = Inl TypeError \<and>
   fetchChannel demo_world (js ''UC3'') = []"
  by (simp add: demo_entries demo_fetchChannel fetchChannel_try_def demo_channels)
    (simp add: unrated_entry_def)

section \<open>What \<open>parseInt\<close> reads\<close>





lemma parseInt_rounds: "parseInt (js ''9007199254740993'') = Num 9007199254740992"
proof -
  have "round_double 9007199254740993 = Num 9007199254740992"
    by (simp add: round_double_def Let_def bitlen_numeral)
  then show ?thesis
    by (simp add: parseInt_def js_def is_space_def startsWith_def digits_value_def Let_def)
qed

section \<open>What the result sets hold\<close>

lemma in_js_slice: "x \<in> set (js_slice xs a b) \<Longrightarrow> x \<in> set xs"
  using set_js_slice [of xs a b] by blast

lemma demo_sitemaps:
  "sitemap_xml demo_world sitemap_url = Parsed (Some [Some product_url, None, Some cable_url, Some []])"
  "sitemap_xml demo_world down_url = NetworkError"
  by (simp_all add: demo_world_def sitemap_url_def down_url_def js_def)

lemma demo_urls_nonempty: "product_url \<noteq> []" "cable_url \<noteq> []"
  by (simp_all add: product_url_def cable_url_def js_def)

lemma demo_fetchSitemapFast:
  "fetchSitemapFast demo_world sitemap_url = [product_url, cable_url]"
  "fetchSitemapFast demo_world down_url = []"
  by (simp_all add: fetchSitemapFast_def fetchSitemapFast_try_def demo_sitemaps
        demo_urls_nonempty js_slice_def rel_index_def)

lemma cable_price: "extract_price cable_page (js ''www.daraz.com.bd'') = js ''Price not available''"
proof -
  have "\<forall>s \<in> set daraz_selectors. \<not> has_currency_marker (trim (first_text cable_page s))"
    by (simp add: cable_page_def trim_def has_currency_marker_def)
  then show ?thesis
    by (simp add: extract_price_def domain_marks try_selectors_none price_not_available_def)
qed

lemma demo_scrape:
  "scrapeProductDataFast demo_world product_url (js ''www.daraz.com.bd'') = Some phone"
  "scrapeProductDataFast demo_world cable_url (js ''www.daraz.com.bd'') = Some cable"
   apply (simp_all add: scrapeProductDataFast_def scrapeProductDataFast_try_def
        demo_product_pages Let_def shop_price_daraz cable_price)
   apply (simp_all add: shop_page_def cable_page_def phone_def cable_def or_undef_def or_str_def
        trim_def is_space_def substring0_def startsWith_def product_url_def cable_url_def js_def)
  done

lemma demo_source_products:
  "source_products demo_world daraz_source = [phone, cable]"
  "source_products demo_world down_source = []"
  by (simp_all add: source_products_def daraz_source_def down_source_def demo_fetchSitemapFast
        js_slice_def rel_index_def demo_scrape)

lemma demo_product_compare:
  "sort_compare (product_compare demo_world) phone cable = 1"
  by (simp add: sort_compare_def product_compare_def demo_world_def phone_def cable_def js_def)

lemma demo_allProducts: "allProducts demo_world [daraz_source] = [cable, phone]"
  by (simp add: allProducts_def demo_source_products js_sort_def demo_product_compare)

lemma trim_nonempty: "trim t \<noteq> [] \<Longrightarrow> t \<noteq> []"
  by (auto simp: trim_def)

lemma scrape_valid:
  "scrapeProductDataFast w url domain = Some product \<Longrightarrow>
     p_title product \<noteq> [] \<and> p_url product = url"
  by (auto simp: scrapeProductDataFast_def scrapeProductDataFast_try_def Let_def substring0_def
        split: fetched.splits if_splits dest: trim_nonempty)

lemma fetchSitemapFast_nonempty: "url \<in> set (fetchSitemapFast w sitemapUrl) \<Longrightarrow> url \<noteq> []"
proof -
  assume a: "url \<in> set (fetchSitemapFast w sitemapUrl)"
  show ?thesis
  proof (cases "sitemap_xml w sitemapUrl")
    case (Parsed doc)
    with a have "url \<in> set (js_slice (case doc of None \<Rightarrow> []
        | Some entries \<Rightarrow> concat (map (\<lambda>urlEntry. case urlEntry of None \<Rightarrow> []
             | Some loc \<Rightarrow> if loc \<noteq> [] then [loc] else []) entries)) (Num 0) (Num 50))"
      by (simp add: fetchSitemapFast_def fetchSitemapFast_try_def)
    then have "url \<in> set (case doc of None \<Rightarrow> []
        | Some entries \<Rightarrow> concat (map (\<lambda>urlEntry. case urlEntry of None \<Rightarrow> []
             | Some loc \<Rightarrow> if loc \<noteq> [] then [loc] else []) entries))"
      by (rule in_js_slice)
    then show ?thesis by (auto split: option.splits if_splits)
  qed (use a in \<open>simp_all add: fetchSitemapFast_def fetchSitemapFast_try_def\<close>)
qed

lemma source_products_valid:
  assumes "product \<in> set (source_products w source)"
  shows "p_title product \<noteq> [] \<and> p_url product \<noteq> []"
proof -
  from assms obtain url where
    u: "url \<in> set (js_slice (fetchSitemapFast w (src_sitemap source)) (Num 0) (Num 15))"
    and p: "scrapeProductDataFast w url (src_domain source) = Some product"
    by (auto simp: source_products_def Let_def split: option.splits)
  from u have "url \<in> set (fetchSitemapFast w (src_sitemap source))"
    by (rule in_js_slice)
  then have "url \<noteq> []" by (rule fetchSitemapFast_nonempty)
  with scrape_valid [OF p] show ?thesis by simp
qed

lemma allProducts_valid:
  "product \<in> set (allProducts w sources) \<Longrightarrow> p_title product \<noteq> [] \<and> p_url product \<noteq> []"
  by (auto simp: allProducts_def set_js_sort dest: source_products_valid)

lemma GET_news_items:
  "resp_items (fst (GET_news w urls op lp)) =
     map (\<lambda>item. fst (enrichItem w item))
       (js_slice (news_allItems w urls) (query_int op (js ''0''))
          (js_add (query_int op (js ''0'')) (query_int lp (js ''30''))))"
  by (simp add: GET_news_def news_page_def Let_def respond_simps enrichItemsWithImages_def)

lemma GET_news_total: "resp_total (fst (GET_news w urls op lp)) = length (news_allItems w urls)"
  by (simp add: GET_news_def news_page_def Let_def respond_simps)

lemma GET_product_items:
  "resp_items (GET_product w sources op lp) =
     js_slice (allProducts w sources) (query_int op (js ''0''))
       (js_add (query_int op (js ''0'')) (query_int lp (js ''20'')))"
  by (simp add: GET_product_def product_page_of_def Let_def respond_simps)

lemma GET_product_total:
  "resp_total (GET_product w sources op lp) = length (allProducts w sources)"
  by (simp add: GET_product_def product_page_of_def Let_def respond_simps)

lemma enrichItem_keeps:
  "n_title (fst (enrichItem w item)) = n_title item"
  "n_link (fst (enrichItem w item)) = n_link item"
  by (simp_all add: enrichItem_fst)

lemma enrichItem_resets:
  "n_link item \<noteq> [] \<Longrightarrow> \<not> n_needsImage (fst (enrichItem w item))"
  by (simp add: enrichItem_fst)

lemma news_page_item_valid:
  assumes "item \<in> set (resp_items (fst (GET_news w urls op lp)))"
  shows "n_title item \<noteq> [] \<and> n_link item \<noteq> [] \<and> \<not> n_needsImage item"
proof -
  from assms obtain src where
    s: "src \<in> set (js_slice (news_allItems w urls) (query_int op (js ''0''))
          (js_add (query_int op (js ''0'')) (query_int lp (js ''30''))))"
    and i: "item = fst (enrichItem w src)"
    by (auto simp: GET_news_items)
  from s have "src \<in> set (news_allItems w urls)" by (rule in_js_slice)
  then have "n_title src \<noteq> [] \<and> n_link src \<noteq> []" by (simp add: news_allItems_valid)
  then show ?thesis by (simp add: i enrichItem_keeps enrichItem_resets)
qed

lemma demo_GET_news:
  "GET_news demo_world [feed_url] None None =
     (\<lparr>resp_items = [new_news, old_news\<lparr>n_image := [], n_needsImage := False\<rparr>],
       resp_hasMore = False, resp_total = 2\<rparr>, [n_link old_news])"
proof -
  have none: "fetchOGImageFromPage demo_world (n_link old_news) = None"
    by (rule fetchOGImage_failure) (simp add: demo_og)
  have link: "n_link old_news \<noteq> []" by (simp add: old_news_def js_def)
  have "enrichItemsWithImages demo_world [new_news, old_news]
      = ([new_news, old_news\<lparr>n_image := [], n_needsImage := False\<rparr>], [n_link old_news])"
    by (simp add: enrichItemsWithImages_def enrichItem_fst enrichItem_snd demo_flags none link)
  then show ?thesis
    by (simp add: GET_news_def news_page_def query_defaults Let_def respond_def
          demo_news_allItems js_slice_def rel_index_def)
qed

text \<open>
  C6, as the code has it. Every item of the news aggregate, and so of every page the news
  handler returns, has a non-empty title and a non-empty link; every product of the
  product aggregate, and of every page of it, has a non-empty title and a non-empty url.
  An item without them is dropped before the sort, so \<open>total\<close>, which is the length of the
  aggregate, does not count it. (The links are tested for being non-empty, nothing more,
  and the video route has no such filter.)
\<close>

theorem listed_items_have_title_and_link:
  "(\<forall>item \<in> set (news_allItems w urls). n_title item \<noteq> [] \<and> n_link item \<noteq> []) \<and>
   resp_total (fst (GET_news w urls op lp)) = length (news_allItems w urls) \<and>
   (\<forall>item \<in> set (resp_items (fst (GET_news w urls op lp))).
      n_title item \<noteq> [] \<and> n_link item \<noteq> []) \<and>
   (\<forall>product \<in> set (allProducts w sources). p_title product \<noteq> [] \<and> p_url product \<noteq> []) \<and>
   resp_total (GET_product w sources op lp) = length (allProducts w sources) \<and>
   (\<forall>product \<in> set (resp_items (GET_product w sources op lp)).
      p_title product \<noteq> [] \<and> p_url product \<noteq> [])"
proof (intro conjI ballI)
  fix product assume "product \<in> set (resp_items (GET_product w sources op lp))"
  then have "product \<in> set (allProducts w sources)"
    unfolding GET_product_items by (rule in_js_slice)
  then show "p_title product \<noteq> []" "p_url product \<noteq> []" by (simp_all add: allProducts_valid)
qed (simp_all add: news_allItems_valid allProducts_valid GET_news_total GET_product_total
       news_page_item_valid)

theorem listed_items_have_title_and_link_witness:
  "rss_feed demo_world feed_url = Parsed (Some [old_item, new_item, untitled_item]) \<and>
   n_title (newsItem_of (js ''a.example'') untitled_item) = [] \<and>
   resp_total (fst (GET_news demo_world [feed_url] None None)) = 2 \<and>
   list_all (\<lambda>item. n_title item \<noteq> [] \<and> n_link item \<noteq> [])
     (resp_items (fst (GET_news demo_world [feed_url] None None))) \<and>
   list_all (\<lambda>product. p_title product \<noteq> [] \<and> p_url product \<noteq> [])
     (allProducts demo_world [daraz_source])"
  using listed_items_have_title_and_link [of demo_world "[feed_url]" None None "[daraz_source]"]
  by (simp add: list_all_iff demo_feed demo_items demo_news_allItems)

text \<open>
  C6 as stated covers the video route as well, which filters nothing: channel UC2 lists
  one entry with an empty title, and the handler returns it and counts it.
\<close>

theorem video_untitled_counterexample:
  "v_title untitled_video = [] \<and>
   GET_videos demo_world [js ''UC2''] None None
     = \<lparr>resp_items = [untitled_video], resp_hasMore = False, resp_total = 1\<rparr>"
  by (simp add: GET_videos_def video_page_def video_defaults demo_sortedVideos respond_def
        js_slice_def rel_index_def Let_def) (simp add: untitled_video_def)

text \<open>
  C9, as the code has it. The enrichment pass consumes the flag and resets it; the key
  stays in the object. In the body of every answer of the news handler, each element of
  \<open>items\<close> has the member \<open>needsImage\<close>, and its value is \<open>false\<close>.
\<close>

theorem needsImage_false_in_response:
  "member_of (news_json (fst (GET_news w urls op lp))) ''items''
     = Some (JArray (map NewsItem_json (resp_items (fst (GET_news w urls op lp))))) \<and>
   (\<forall>item \<in> set (resp_items (fst (GET_news w urls op lp))).
      member_of (NewsItem_json item) ''needsImage'' = Some (JBool False))"
  by (auto simp: news_json_def NewsItem_json_def dest: news_page_item_valid)

theorem needsImage_false_in_response_witness:
  "map (\<lambda>j. member_of j ''needsImage'')
     (map NewsItem_json (resp_items (fst (GET_news demo_world [feed_url] None None))))
   = [Some (JBool False), Some (JBool False)] \<and>
   length (resp_items (fst (GET_news demo_world [feed_url] None None))) = 2"
proof -
  have two: "resp_items (fst (GET_news demo_world [feed_url] None None))
       = [new_news, old_news\<lparr>n_image := [], n_needsImage := False\<rparr>]"
    by (simp add: demo_GET_news)
  from needsImage_false_in_response [of demo_world "[feed_url]" None None, THEN conjunct2]
  show ?thesis unfolding two by simp
qed

text \<open>
  C9 as stated has no \<open>needsImage\<close> member in the answer. Here both items carry it.
\<close>

theorem needsImage_present_counterexample:
  "member_of (news_json (fst (GET_news demo_world [feed_url] None None))) ''items''
     = Some (JArray (map NewsItem_json [new_news, old_news\<lparr>n_image := [], n_needsImage := False\<rparr>])) \<and>
   member_of (NewsItem_json new_news) ''needsImage'' = Some (JBool False) \<and>
   member_of (NewsItem_json (old_news\<lparr>n_image := [], n_needsImage := False\<rparr>)) ''needsImage''
     = Some (JBool False)"
  by (simp add: demo_GET_news news_json_def NewsItem_json_def demo_flags)

section \<open>Pagination\<close>

lemma GET_news_hasMore:
  "resp_hasMore (fst (GET_news w urls op lp)) =
     js_lt (js_add (query_int op (js ''0'')) (query_int lp (js ''30'')))
       (Num (int (length (news_allItems w urls))))"
  by (simp add: GET_news_def news_page_def Let_def respond_simps)

lemma GET_product_hasMore:
  "resp_hasMore (GET_product w sources op lp) =
     js_lt (js_add (query_int op (js ''0'')) (query_int lp (js ''20'')))
       (Num (int (length (allProducts w sources))))"
  by (simp add: GET_product_def product_page_of_def Let_def respond_simps)

lemma GET_videos_parts:
  "resp_items (GET_videos w channelIds op lp) =
     js_slice (sortedVideos w channelIds) (query_number w op 0)
       (js_add (query_number w op 0) (query_number w lp 30))"
  "resp_total (GET_videos w channelIds op lp) = length (sortedVideos w channelIds)"
  "resp_hasMore (GET_videos w channelIds op lp) =
     js_lt (js_add (query_number w op 0) (query_number w lp 30))
       (Num (int (length (sortedVideos w channelIds))))"
  by (simp_all add: GET_videos_def video_page_def Let_def respond_simps)

text \<open>
  C1, as the code has it. For an offset and a limit that parse to non-negative integers,
  every handler returns \<open>total\<close> = the length of the full filtered and sorted aggregate,
  \<open>hasMore\<close> = (offset + limit < total), and the window \<open>[offset, offset + limit)\<close> of the
  aggregate: as it is on the product and the video route, and passed through the
  enrichment pass, item by item, on the news route.
\<close>

theorem pagination_over_full_aggregate:
  assumes "0 \<le> off" and "0 \<le> lim"
  shows
    "(query_int op (js ''0'') = Num off \<and> query_int lp (js ''30'') = Num lim \<longrightarrow>
        resp_total (fst (GET_news w urls op lp)) = length (news_allItems w urls) \<and>
        resp_hasMore (fst (GET_news w urls op lp))
          = (off + lim < int (length (news_allItems w urls))) \<and>
        resp_items (fst (GET_news w urls op lp))
          = fst (enrichItemsWithImages w
                   (take (nat lim) (drop (nat off) (news_allItems w urls))))) \<and>
     (query_int op (js ''0'') = Num off \<and> query_int lp (js ''20'') = Num lim \<longrightarrow>
        resp_total (GET_product w sources op lp) = length (allProducts w sources) \<and>
        resp_hasMore (GET_product w sources op lp)
          = (off + lim < int (length (allProducts w sources))) \<and>
        resp_items (GET_product w sources op lp)
          = take (nat lim) (drop (nat off) (allProducts w sources))) \<and>
     (query_number w op 0 = Num off \<and> query_number w lp 30 = Num lim \<longrightarrow>
        resp_total (GET_videos w channelIds op lp) = length (sortedVideos w channelIds) \<and>
        resp_hasMore (GET_videos w channelIds op lp)
          = (off + lim < int (length (sortedVideos w channelIds))) \<and>
        resp_items (GET_videos w channelIds op lp)
          = take (nat lim) (drop (nat off) (sortedVideos w channelIds)))"
proof (intro conjI impI)
  assume "query_int op (js ''0'') = Num off \<and> query_int lp (js ''30'') = Num lim"
  then show "resp_items (fst (GET_news w urls op lp))
          = fst (enrichItemsWithImages w
                   (take (nat lim) (drop (nat off) (news_allItems w urls))))"
    using assms by (simp add: GET_news_items js_slice_take_drop enrichItemsWithImages_def)
qed (use assms in \<open>simp_all add: GET_news_total GET_news_hasMore GET_product_total
       GET_product_hasMore GET_product_items GET_videos_parts js_slice_take_drop\<close>)

lemma query_one:
  "query_int (Some (js ''1'')) (js ''0'') = Num 1"
  "query_int (Some (js ''1'')) (js ''30'') = Num 1"
  "query_int (Some (js ''1'')) (js ''20'') = Num 1"
  "query_number demo_world (Some (js ''1'')) d = Num 1"
  by (simp_all add: query_int_def or_undef_def or_str_def parseInt_def js_def is_space_def
        startsWith_def digits_value_def Let_def query_number_def demo_world_def
        round_double_small)

theorem pagination_over_full_aggregate_witness:
  "query_int (Some (js ''1'')) (js ''0'') = Num 1 \<and>
   news_allItems demo_world [feed_url] = [new_news, old_news] \<and>
   resp_items (fst (GET_news demo_world [feed_url] (Some (js ''1'')) (Some (js ''1''))))
     = [old_news\<lparr>n_image := [], n_needsImage := False\<rparr>] \<and>
   resp_total (fst (GET_news demo_world [feed_url] (Some (js ''1'')) (Some (js ''1'')))) = 2 \<and>
   \<not> resp_hasMore (fst (GET_news demo_world [feed_url] (Some (js ''1'')) (Some (js ''1'')))) \<and>
   allProducts demo_world [daraz_source] = [cable, phone] \<and>
   resp_items (GET_product demo_world [daraz_source] (Some (js ''1'')) (Some (js ''1''))) = [phone] \<and>
   resp_total (GET_product demo_world [daraz_source] (Some (js ''1'')) (Some (js ''1''))) = 2 \<and>
   sortedVideos demo_world [js ''UC1''] = [live_video, talk_video] \<and>
   resp_items (GET_videos demo_world [js ''UC1''] (Some (js ''1'')) (Some (js ''1''))) = [talk_video] \<and>
   resp_total (GET_videos demo_world [js ''UC1''] (Some (js ''1'')) (Some (js ''1''))) = 2"
proof -
  have none: "fetchOGImageFromPage demo_world (n_link old_news) = None"
    by (rule fetchOGImage_failure) (simp add: demo_og)
  have link: "n_link old_news \<noteq> []" by (simp add: old_news_def js_def)
  have enriched: "fst (enrichItemsWithImages demo_world [old_news])
      = [old_news\<lparr>n_image := [], n_needsImage := False\<rparr>]"
    by (simp add: enrichItemsWithImages_def enrichItem_fst demo_flags none link)
  from pagination_over_full_aggregate [of 1 1 "Some (js ''1'')" "Some (js ''1'')" demo_world
      "[feed_url]" "[daraz_source]" "[js ''UC1'']"]
  show ?thesis
    by (simp add: query_one demo_news_allItems demo_allProducts demo_sortedVideos enriched)
qed

text \<open>
  C1 as stated has the news page equal to the slice. The second item of the slice below
  is flagged \<open>needsImage\<close>, and the page holds it with the flag reset.
\<close>

theorem news_page_is_enriched_counterexample:
  "js_slice (news_allItems demo_world [feed_url]) (Num 0) (js_add (Num 0) (Num 30))
     = [new_news, old_news] \<and>
   resp_items (fst (GET_news demo_world [feed_url] None None))
     = [new_news, old_news\<lparr>n_image := [], n_needsImage := False\<rparr>] \<and>
   old_news\<lparr>n_image := [], n_needsImage := False\<rparr> \<noteq> old_news"
  by (simp add: demo_page [simplified] demo_GET_news) (simp add: old_news_def)

section \<open>Failing sources\<close>

lemma fetchRSSFeed_failed:
  "(\<forall>doc. rss_feed w url \<noteq> Parsed doc) \<or> isl (fetchRSSFeed_try w url) \<Longrightarrow>
   fetchRSSFeed w url = []"
  by (cases "rss_feed w url")
    (auto simp: fetchRSSFeed_def fetchRSSFeed_try_def split: sum.splits)

lemma source_products_failed:
  "(\<forall>doc. sitemap_xml w (src_sitemap source) \<noteq> Parsed doc)
     \<or> isl (fetchSitemapFast_try w (src_sitemap source)) \<Longrightarrow>
   source_products w source = []"
  by (cases "sitemap_xml w (src_sitemap source)")
    (auto simp: source_products_def fetchSitemapFast_def fetchSitemapFast_try_def js_slice_def
       split: sum.splits)

lemma fetchChannel_failed:
  "(\<forall>doc. channel_feed w (channel_url channelId) \<noteq> Parsed doc)
     \<or> isl (fetchChannel_try w channelId) \<Longrightarrow>
   fetchChannel w channelId = []"
  by (cases "channel_feed w (channel_url channelId)")
    (auto simp: fetchChannel_def fetchChannel_try_def split: sum.splits)

text \<open>
  C3. A source that fails, by a rejected request, a status outside 2xx, a payload that
  does not parse, or any other exception in the body of its \<open>try\<close>, contributes the empty
  list, and the answer of the handler is the answer it gives without that source in the
  list: nothing is thrown and no item of another source is lost.
\<close>

theorem failing_source_is_isolated:
  "((\<forall>doc. rss_feed w url \<noteq> Parsed doc) \<or> isl (fetchRSSFeed_try w url) \<longrightarrow>
      fetchRSSFeed w url = [] \<and>
      GET_news w (urls @ url # urls') op lp = GET_news w (urls @ urls') op lp) \<and>
   ((\<forall>doc. sitemap_xml w (src_sitemap source) \<noteq> Parsed doc)
      \<or> isl (fetchSitemapFast_try w (src_sitemap source)) \<longrightarrow>
      source_products w source = [] \<and>
      GET_product w (sources @ source # sources') op lp = GET_product w (sources @ sources') op lp) \<and>
   ((\<forall>doc. channel_feed w (channel_url channelId) \<noteq> Parsed doc)
      \<or> isl (fetchChannel_try w channelId) \<longrightarrow>
      fetchChannel w channelId = [] \<and>
      GET_videos w (channelIds @ channelId # channelIds') op lp
        = GET_videos w (channelIds @ channelIds') op lp)"
proof (intro conjI impI)
  assume "(\<forall>doc. rss_feed w url \<noteq> Parsed doc) \<or> isl (fetchRSSFeed_try w url)"
  then have e: "fetchRSSFeed w url = []" by (rule fetchRSSFeed_failed)
  then show "fetchRSSFeed w url = []" .
  from e have "news_allItems w (urls @ url # urls') = news_allItems w (urls @ urls')"
    by (simp add: news_allItems_def)
  then show "GET_news w (urls @ url # urls') op lp = GET_news w (urls @ urls') op lp"
    by (simp add: GET_news_def news_page_def)
next
  assume "(\<forall>doc. sitemap_xml w (src_sitemap source) \<noteq> Parsed doc)
      \<or> isl (fetchSitemapFast_try w (src_sitemap source))"
  then have e: "source_products w source = []" by (rule source_products_failed)
  then show "source_products w source = []" .
  from e have "allProducts w (sources @ source # sources') = allProducts w (sources @ sources')"
    by (simp add: allProducts_def)
  then show "GET_product w (sources @ source # sources') op lp
      = GET_product w (sources @ sources') op lp"
    by (simp add: GET_product_def product_page_of_def)
next
  assume "(\<forall>doc. channel_feed w (channel_url channelId) \<noteq> Parsed doc)
      \<or> isl (fetchChannel_try w channelId)"
  then have e: "fetchChannel w channelId = []" by (rule fetchChannel_failed)
  then show "fetchChannel w channelId = []" .
  from e have "sortedVideos w (channelIds @ channelId # channelIds')
      = sortedVideos w (channelIds @ channelIds')"
    by (simp add: sortedVideos_def)
  then show "GET_videos w (channelIds @ channelId # channelIds') op lp
      = GET_videos w (channelIds @ channelIds') op lp"
    by (simp add: GET_videos_def video_page_def)
qed

theorem failing_source_is_isolated_witness:
  "rss_feed demo_world down_url = NetworkError \<and>
   GET_news demo_world [feed_url, down_url] None None = GET_news demo_world [feed_url] None None \<and>
   resp_total (fst (GET_news demo_world [feed_url, down_url] None None)) = 2 \<and>
   sitemap_xml demo_world (src_sitemap down_source) = NetworkError \<and>
   GET_product demo_world [down_source, daraz_source] None None
     = GET_product demo_world [daraz_source] None None \<and>
   resp_total (GET_product demo_world [down_source, daraz_source] None None) = 2 \<and>
   fetchChannel_try demo_world (js ''UC3'') = Inl TypeError \<and>
   GET_videos demo_world [js ''UC1'', js ''UC3''] None None
     = GET_videos demo_world [js ''UC1''] None None \<and>
   resp_items (GET_videos demo_world [js ''UC1'', js ''UC3''] None None) = [live_video, talk_video]"
proof -
  have t: "fetchChannel_try demo_world (js ''UC3'') = Inl TypeError"
    by (simp add: fetchChannel_try_def demo_channels demo_entries)
  have s: "sitemap_xml demo_world (src_sitemap down_source) = NetworkError"
    by (simp add: down_source_def demo_sitemaps)
  from failing_source_is_isolated [of demo_world down_url "[feed_url]" "[]" None None
      down_source "[]" "[daraz_source]" "js ''UC3''" "[js ''UC1'']" "[]"]
  have "GET_news demo_world [feed_url, down_url] None None = GET_news demo_world [feed_url] None None"
    and "GET_product demo_world [down_source, daraz_source] None None
     = GET_product demo_world [daraz_source] None None"
    and "GET_videos demo_world [js ''UC1'', js ''UC3''] None None
     = GET_videos demo_world [js ''UC1''] None None"
    by (simp_all add: demo_feed_down s t)
  then show ?thesis
    by (simp add: demo_feed_down s t demo_GET_news GET_product_total demo_allProducts
          GET_videos_parts video_defaults demo_sortedVideos js_slice_def rel_index_def)
qed

section \<open>Defaults of the query parameters\<close>






end
